theory Spec2Isabelle
  imports Main
begin

section \<open>Data model\<close>

text \<open>
  The resolvers of the media service (\<^verbatim>\<open>apps/api/src/resolvers.ts\<close>) run against a
  relational store with the tables of the initial migration and against a
  process-local token cache. A table is the list of its rows, a query is a
  filter over that list, and a resolver is a function from the state to a result
  together with the state it leaves behind: an exception thrown after a write has
  been issued leaves that write in place, so the state is returned next to the error.

  Identifiers (uuid, text) are strings, timestamps are milliseconds since the epoch,
  and the \<^verbatim>\<open>version\<close> column is an integer. The store itself is taken to be
  reliable: a call fails only where the schema or the shape of the result makes it
  fail (no row or several rows for \<^verbatim>\<open>.single()\<close>, a primary key, a unique or a
  foreign key constraint between the tables of the migration, a value outside the
  range of an \<^verbatim>\<open>int\<close> column); transport failures and the references to
  \<^verbatim>\<open>auth.users\<close> are outside the model. The integer arguments of a resolver are
  GraphQL \<^verbatim>\<open>Int\<close> values and so lie within the range of the \<^verbatim>\<open>int\<close> columns
  they are written to; the one integer a resolver computes before writing it is
  \<^verbatim>\<open>version + 1\<close> in \<^verbatim>\<open>renameAsset\<close>, and that write is checked against the
  range. A reply of the store or of the gateway that carries
  neither data nor an error does not occur; where a resolver would then dereference
  \<^verbatim>\<open>null\<close>, the model answers with an error.
\<close>

type_synonym uuid = string
type_synonym timestamp = int

datatype status = Draft | Uploading | Ready | Corrupt

record asset =
  a_id :: uuid
  a_owner_id :: uuid
  a_filename :: string
  a_mime :: string
  a_size :: int
  a_storage_path :: string
  a_sha256 :: "string option"
  a_status :: status
  a_version :: int
  a_created_at :: timestamp
  a_updated_at :: timestamp

record upload_ticket =
  t_asset_id :: uuid
  t_user_id :: uuid
  t_nonce :: string
  t_mime :: string
  t_size :: int
  t_storage_path :: string
  t_expires_at :: timestamp
  t_used :: bool
  t_created_at :: timestamp

record asset_share =
  s_id :: uuid
  s_asset_id :: uuid
  s_to_user :: uuid
  s_can_download :: bool
  s_created_at :: timestamp

record download_audit =
  d_id :: uuid
  d_asset_id :: uuid
  d_user_id :: uuid
  d_at :: timestamp

record user =
  u_id :: uuid
  u_email :: string

text \<open>An entry of \<^verbatim>\<open>urlAccessCache\<close>, the map from access token to its binding.\<close>

record cache_entry =
  c_userId :: uuid
  c_assetId :: uuid
  c_expiresAt :: timestamp

record db =
  assets :: "asset list"
  upload_tickets :: "upload_ticket list"
  asset_shares :: "asset_share list"
  download_audits :: "download_audit list"
  users :: "user list"
  urlAccessCache :: "string \<rightharpoonup> cache_entry"

subsection \<open>Errors\<close>

text \<open>
  A resolver throws either a \<^verbatim>\<open>GraphQLError\<close> with a message and an extension
  code, or the raw error object of the store, which carries the code of PostgREST or
  of Postgres (\<^verbatim>\<open>PGRST116\<close>: the result is not exactly one row; \<^verbatim>\<open>23505\<close>:
  unique violation; \<^verbatim>\<open>23503\<close>: foreign key violation), or the error of the blob
  gateway.
\<close>

datatype code = UNAUTHENTICATED | NOT_FOUND | FORBIDDEN | BAD_REQUEST | INVALID_TICKET | CONFLICT

datatype error =
    GraphQLError string code
  | PostgrestError string
  | StorageError string

fun error_code :: "error \<Rightarrow> string" where
  "error_code (PostgrestError c) = c"
| "error_code (GraphQLError m c) = []"
| "error_code (StorageError m) = []"

text \<open>The extension code a failed call shows to the client, if it has one.\<close>

fun extension_code :: "error + 'a \<Rightarrow> code option" where
  "extension_code (Inl (GraphQLError m c)) = Some c"
| "extension_code (Inl (PostgrestError c)) = None"
| "extension_code (Inl (StorageError m)) = None"
| "extension_code (Inr x) = None"

subsection \<open>Request context\<close>

record request_context =
  userId :: "string option"

text \<open>\<^verbatim>\<open>requireAuth\<close>: a missing user id, and the empty one (falsy), is rejected.\<close>

definition requireAuth :: "request_context \<Rightarrow> error + string" where
  "requireAuth ctx =
     (case userId ctx of
        None \<Rightarrow> Inl (GraphQLError ''Unauthorized'' UNAUTHENTICATED)
      | Some u \<Rightarrow> if u = [] then Inl (GraphQLError ''Unauthorized'' UNAUTHENTICATED) else Inr u)"

section \<open>The store\<close>

subsection \<open>Reading rows\<close>

text \<open>
  A call of the store client resolves to \<^verbatim>\<open>{ data, error }\<close>, modelled as a pair of
  options. \<^verbatim>\<open>.single()\<close> wants exactly one row and otherwise reports
  \<^verbatim>\<open>PGRST116\<close> with no data; \<^verbatim>\<open>.maybeSingle()\<close> accepts no row as well.
\<close>

definition single :: "'a list \<Rightarrow> 'a option \<times> error option" where
  "single rows =
     (case rows of
        [r] \<Rightarrow> (Some r, None)
      | _ \<Rightarrow> (None, Some (PostgrestError ''PGRST116'')))"

definition maybeSingle :: "'a list \<Rightarrow> 'a option \<times> error option" where
  "maybeSingle rows =
     (case rows of
        [] \<Rightarrow> (None, None)
      | [r] \<Rightarrow> (Some r, None)
      | _ \<Rightarrow> (None, Some (PostgrestError ''PGRST116'')))"

subsection \<open>Writing rows\<close>

text \<open>
  \<^verbatim>\<open>update(v).eq(...)\<close> rewrites every row the filter selects. Followed by
  \<^verbatim>\<open>.select("*").single()\<close> it returns the rewritten row when there is exactly one,
  and otherwise the request fails with \<^verbatim>\<open>PGRST116\<close> and is rolled back.
\<close>

definition update_rows :: "('a \<Rightarrow> bool) \<Rightarrow> ('a \<Rightarrow> 'a) \<Rightarrow> 'a list \<Rightarrow> 'a list" where
  "update_rows P f tbl = map (\<lambda>r. if P r then f r else r) tbl"

definition update_single ::
  "('a \<Rightarrow> bool) \<Rightarrow> ('a \<Rightarrow> 'a) \<Rightarrow> 'a list \<Rightarrow> ('a option \<times> error option) \<times> 'a list" where
  "update_single P f tbl =
     (case filter P tbl of
        [r] \<Rightarrow> ((Some (f r), None), update_rows P f tbl)
      | _ \<Rightarrow> ((None, Some (PostgrestError ''PGRST116'')), tbl))"

text \<open>
  The column \<^verbatim>\<open>asset.version\<close> is a 32-bit \<^verbatim>\<open>int\<close>. An update that would write
  a version outside that range into a selected row is refused by Postgres with
  \<^verbatim>\<open>22003\<close> (numeric value out of range) and changes nothing; an update that
  selects no row writes nothing and is answered as above.
\<close>

definition int4 :: "int \<Rightarrow> bool" where
  "int4 n = (- 2147483648 \<le> n \<and> n \<le> 2147483647)"

definition update_asset_single ::
  "(asset \<Rightarrow> bool) \<Rightarrow> (asset \<Rightarrow> asset) \<Rightarrow> asset list
     \<Rightarrow> (asset option \<times> error option) \<times> asset list" where
  "update_asset_single P f tbl =
     (if list_ex (\<lambda>r. \<not> int4 (a_version (f r))) (filter P tbl)
      then ((None, Some (PostgrestError ''22003'')), tbl)
      else update_single P f tbl)"

text \<open>
  Inserts check the constraints of the migration: \<^verbatim>\<open>asset.id\<close> is the primary key
  and \<^verbatim>\<open>asset.storage_path\<close> is unique; \<^verbatim>\<open>upload_ticket.asset_id\<close> is the primary
  key and references \<^verbatim>\<open>asset(id)\<close>, and \<^verbatim>\<open>upload_ticket.nonce\<close> is unique;
  \<^verbatim>\<open>asset_share.id\<close> is the primary key, \<^verbatim>\<open>(asset_id, to_user)\<close> is unique and
  \<^verbatim>\<open>asset_id\<close> references \<^verbatim>\<open>asset(id)\<close>.
\<close>

definition insert_asset :: "asset \<Rightarrow> asset list \<Rightarrow> error option \<times> asset list" where
  "insert_asset r tbl =
     (if a_id r \<in> set (map a_id tbl) \<or> a_storage_path r \<in> set (map a_storage_path tbl)
      then (Some (PostgrestError ''23505''), tbl)
      else (None, tbl @ [r]))"

definition insert_ticket ::
  "upload_ticket \<Rightarrow> asset list \<Rightarrow> upload_ticket list \<Rightarrow> error option \<times> upload_ticket list" where
  "insert_ticket r atbl tbl =
     (if t_asset_id r \<in> set (map t_asset_id tbl) \<or> t_nonce r \<in> set (map t_nonce tbl)
      then (Some (PostgrestError ''23505''), tbl)
      else if t_asset_id r \<notin> set (map a_id atbl)
      then (Some (PostgrestError ''23503''), tbl)
      else (None, tbl @ [r]))"

text \<open>
  \<^verbatim>\<open>upsert\<close> resolves conflicts on the primary key: a row with the same \<^verbatim>\<open>id\<close> is
  replaced, any other clash on \<^verbatim>\<open>(asset_id, to_user)\<close> is a unique violation.
\<close>

definition upsert_share ::
  "asset_share \<Rightarrow> asset list \<Rightarrow> asset_share list
     \<Rightarrow> (asset_share option \<times> error option) \<times> asset_share list" where
  "upsert_share r atbl tbl =
     (if (s_asset_id r, s_to_user r)
           \<in> set (map (\<lambda>x. (s_asset_id x, s_to_user x)) (filter (\<lambda>x. s_id x \<noteq> s_id r) tbl))
      then ((None, Some (PostgrestError ''23505'')), tbl)
      else if s_asset_id r \<notin> set (map a_id atbl)
      then ((None, Some (PostgrestError ''23503'')), tbl)
      else if s_id r \<in> set (map s_id tbl)
      then ((Some r, None), update_rows (\<lambda>x. s_id x = s_id r) (\<lambda>x. r) tbl)
      else ((Some r, None), tbl @ [r]))"

text \<open>The audit insert, whose outcome the resolver never inspects.\<close>

definition insert_audit :: "download_audit \<Rightarrow> download_audit list \<Rightarrow> download_audit list" where
  "insert_audit r tbl = (if d_id r \<in> set (map d_id tbl) then tbl else tbl @ [r])"

text \<open>The trigger \<^verbatim>\<open>asset_updated_at\<close> stamps every updated asset row.\<close>

definition update_updated_at :: "timestamp \<Rightarrow> asset \<Rightarrow> asset" where
  "update_updated_at now a = a\<lparr>a_updated_at := now\<rparr>"

subsection \<open>The blob gateway\<close>

text \<open>
  The storage bucket is an external collaborator: the resolvers only ask it for
  pre-signed URLs. It is a parameter of the model.
\<close>

record gateway =
  createSignedUploadUrl :: "string \<Rightarrow> string option \<times> error option"
  createSignedUrl :: "string \<Rightarrow> nat \<Rightarrow> string option \<times> error option"

subsection \<open>What a resolver returns for an asset\<close>

record asset_node =
  n_id :: uuid
  n_filename :: string
  n_mime :: string
  n_size :: int
  n_sha256 :: "string option"
  n_status :: status
  n_version :: int
  n_createdAt :: timestamp
  n_updatedAt :: timestamp

definition asset_node_of :: "asset \<Rightarrow> asset_node" where
  "asset_node_of a =
     \<lparr>n_id = a_id a, n_filename = a_filename a, n_mime = a_mime a, n_size = a_size a,
      n_sha256 = a_sha256 a, n_status = a_status a, n_version = a_version a,
      n_createdAt = a_created_at a, n_updatedAt = a_updated_at a\<rparr>"

section \<open>The access token cache\<close>

record token_validation =
  v_valid :: bool
  v_assetId :: string

text \<open>
  \<^verbatim>\<open>validateDownloadToken\<close>, with \<open>now\<close> the value of \<^verbatim>\<open>Date.now()\<close>. An
  expired entry is deleted before the error is thrown.
\<close>

definition validateDownloadToken ::
  "request_context \<Rightarrow> string \<Rightarrow> timestamp \<Rightarrow> db \<Rightarrow> (error + token_validation) \<times> db" where
  "validateDownloadToken ctx accessToken now s =
     (case requireAuth ctx of
        Inl e \<Rightarrow> (Inl e, s)
      | Inr uid \<Rightarrow>
          (case urlAccessCache s accessToken of
             None \<Rightarrow> (Inl (GraphQLError ''Invalid or expired access token'' FORBIDDEN), s)
           | Some cached \<Rightarrow>
               if c_userId cached \<noteq> uid then (Inl (GraphQLError ''Access denied'' FORBIDDEN), s)
               else if c_expiresAt cached < now then
                 (Inl (GraphQLError ''Token expired'' FORBIDDEN),
                  s\<lparr>urlAccessCache := (urlAccessCache s)(accessToken := None)\<rparr>)
               else
                 (Inr \<lparr>v_valid = True, v_assetId = c_assetId cached\<rparr>,
                  s\<lparr>urlAccessCache := (urlAccessCache s)(accessToken := None)\<rparr>)))"

text \<open>The sweep run by \<^verbatim>\<open>setInterval\<close> every minute: entries past expiry are dropped.\<close>

definition sweep :: "timestamp \<Rightarrow> db \<Rightarrow> db" where
  "sweep now s =
     s\<lparr>urlAccessCache :=
         (\<lambda>token. case urlAccessCache s token of
                     None \<Rightarrow> None
                   | Some data \<Rightarrow> if c_expiresAt data < now then None else Some data)\<rparr>"

text \<open>
  \<^verbatim>\<open>getDownloadUrl\<close>. \<open>accessToken\<close> and \<open>auditId\<close> stand for the values drawn from
  \<^verbatim>\<open>crypto.randomBytes\<close> and \<^verbatim>\<open>crypto.randomUUID\<close>. The asset is read with
  \<^verbatim>\<open>.single()\<close>, the grant with \<^verbatim>\<open>.maybeSingle()\<close>.
\<close>

record download_link =
  l_url :: string
  l_expiresAt :: timestamp

definition getDownloadUrl ::
  "gateway \<Rightarrow> request_context \<Rightarrow> uuid \<Rightarrow> string \<Rightarrow> uuid \<Rightarrow> timestamp \<Rightarrow> db
     \<Rightarrow> (error + download_link) \<times> db" where
  "getDownloadUrl gw ctx assetId accessToken auditId now s =
     (case requireAuth ctx of
        Inl e \<Rightarrow> (Inl e, s)
      | Inr uid \<Rightarrow>
          (case single (filter (\<lambda>a. a_id a = assetId) (assets s)) of
             (_, Some assetError) \<Rightarrow> (Inl assetError, s)
           | (None, None) \<Rightarrow> (Inl (GraphQLError ''Asset not found'' NOT_FOUND), s)
           | (Some asset, None) \<Rightarrow>
               (case (if a_owner_id asset \<noteq> uid
                      then (case maybeSingle
                                   (filter (\<lambda>x. s_asset_id x = assetId \<and> s_to_user x = uid
                                                 \<and> s_can_download x = True) (asset_shares s)) of
                              (_, Some shareError) \<Rightarrow> Some shareError
                            | (None, None) \<Rightarrow> Some (GraphQLError ''Access denied'' FORBIDDEN)
                            | (Some sharedAccess, None) \<Rightarrow> None)
                      else None) of
                  Some e \<Rightarrow> (Inl e, s)
                | None \<Rightarrow>
                    (case createSignedUrl gw (a_storage_path asset) 90 of
                       (_, Some urlError) \<Rightarrow> (Inl urlError, s)
                     | (None, None) \<Rightarrow> (Inl (StorageError ''no signed url''), s)
                     | (Some signedUrl, None) \<Rightarrow>
                         (Inr \<lparr>l_url = signedUrl @ ''&access_token='' @ accessToken,
                               l_expiresAt = now + 90 * 1000\<rparr>,
                          s\<lparr>urlAccessCache :=
                              (urlAccessCache s)(accessToken \<mapsto>
                                 \<lparr>c_userId = uid, c_assetId = assetId,
                                  c_expiresAt = now + 90 * 1000\<rparr>),
                            download_audits :=
                              insert_audit \<lparr>d_id = auditId, d_asset_id = assetId,
                                            d_user_id = uid, d_at = now\<rparr>
                                (download_audits s)\<rparr>)))))"

section \<open>Issuing an upload ticket\<close>

definition ALLOWED_MIMES :: "string list" where
  "ALLOWED_MIMES = [''image/jpeg'', ''image/png'', ''image/webp'', ''application/pdf'']"

text \<open>
  \<^verbatim>\<open>sanitizeFilename\<close>: every character outside \<^verbatim>\<open>[a-zA-Z0-9._-]\<close> becomes an
  underscore, runs of underscores collapse to one, and the result is trimmed.
\<close>

definition safe_char :: "char \<Rightarrow> bool" where
  "safe_char c =
     (c \<in> set ''abcdefghijklmnopqrstuvwxyzABCDEFGHIJKLMNOPQRSTUVWXYZ0123456789._-'')"

fun collapse_underscores :: "string \<Rightarrow> string" where
  "collapse_underscores (a # b # cs) =
     (if a = CHR ''_'' \<and> b = CHR ''_'' then collapse_underscores (b # cs)
      else a # collapse_underscores (b # cs))"
| "collapse_underscores cs = cs"

definition is_space :: "char \<Rightarrow> bool" where
  "is_space c = (c \<in> set [CHR '' '', CHR 0x09, CHR 0x0A, CHR 0x0B, CHR 0x0C, CHR 0x0D])"

definition trim :: "string \<Rightarrow> string" where
  "trim cs = rev (dropWhile is_space (rev (dropWhile is_space cs)))"

definition sanitizeFilename :: "string \<Rightarrow> string" where
  "sanitizeFilename filename =
     trim (collapse_underscores (map (\<lambda>c. if safe_char c then c else CHR ''_'') filename))"

record upload_ticket_result =
  k_assetId :: uuid
  k_storagePath :: string
  k_uploadUrl :: string
  k_expiresAt :: timestamp
  k_nonce :: string
  k_version :: int

text \<open>
  \<^verbatim>\<open>createUploadUrl\<close>. \<open>assetId\<close> and \<open>nonce\<close> stand for the values drawn from
  \<^verbatim>\<open>crypto.randomUUID\<close> and \<^verbatim>\<open>crypto.randomBytes\<close>. The two inserts are two
  separate requests to the store, each followed by its own error check.
\<close>

definition new_asset :: "uuid \<Rightarrow> uuid \<Rightarrow> string \<Rightarrow> string \<Rightarrow> int \<Rightarrow> string \<Rightarrow> timestamp \<Rightarrow> asset" where
  "new_asset assetId uid filename mime sz storagePath now =
     \<lparr>a_id = assetId, a_owner_id = uid, a_filename = filename, a_mime = mime, a_size = sz,
      a_storage_path = storagePath, a_sha256 = None, a_status = Draft, a_version = 1,
      a_created_at = now, a_updated_at = now\<rparr>"

definition new_ticket :: "uuid \<Rightarrow> uuid \<Rightarrow> string \<Rightarrow> string \<Rightarrow> int \<Rightarrow> string \<Rightarrow> timestamp \<Rightarrow> upload_ticket" where
  "new_ticket assetId uid storagePath mime sz nonce now =
     \<lparr>t_asset_id = assetId, t_user_id = uid, t_nonce = nonce, t_mime = mime, t_size = sz,
      t_storage_path = storagePath, t_expires_at = now + 10 * 60 * 1000, t_used = False,
      t_created_at = now\<rparr>"

definition createUploadUrl ::
  "gateway \<Rightarrow> request_context \<Rightarrow> string \<Rightarrow> string \<Rightarrow> int \<Rightarrow> uuid \<Rightarrow> string \<Rightarrow> timestamp \<Rightarrow> db
     \<Rightarrow> (error + upload_ticket_result) \<times> db" where
  "createUploadUrl gw ctx filename mime sz assetId nonce now s =
     (case requireAuth ctx of
        Inl e \<Rightarrow> (Inl e, s)
      | Inr uid \<Rightarrow>
          if mime \<notin> set ALLOWED_MIMES
          then (Inl (GraphQLError (''Unsupported file type: '' @ mime) BAD_REQUEST), s)
          else
            let sanitizedFilename = sanitizeFilename filename;
                storagePath = uid @ ''/'' @ assetId @ ''/'' @ sanitizedFilename
            in (case insert_asset (new_asset assetId uid filename mime sz storagePath now)
                       (assets s) of
                  (Some assetError, _) \<Rightarrow> (Inl assetError, s)
                | (None, atbl) \<Rightarrow>
                    (case insert_ticket (new_ticket assetId uid storagePath mime sz nonce now)
                            atbl (upload_tickets s) of
                       (Some ticketError, _) \<Rightarrow> (Inl ticketError, s\<lparr>assets := atbl\<rparr>)
                     | (None, ttbl) \<Rightarrow>
                         (case createSignedUploadUrl gw storagePath of
                            (_, Some urlError) \<Rightarrow>
                              (Inl urlError, s\<lparr>assets := atbl, upload_tickets := ttbl\<rparr>)
                          | (None, None) \<Rightarrow>
                              (Inl (StorageError ''no signed url''),
                               s\<lparr>assets := atbl, upload_tickets := ttbl\<rparr>)
                          | (Some signedUrl, None) \<Rightarrow>
                              (Inr \<lparr>k_assetId = assetId, k_storagePath = storagePath,
                                    k_uploadUrl = signedUrl,
                                    k_expiresAt = now + 10 * 60 * 1000,
                                    k_nonce = nonce, k_version = 1\<rparr>,
                               s\<lparr>assets := atbl, upload_tickets := ttbl\<rparr>)))))"

text \<open>The storage path \<^verbatim>\<open>createUploadUrl\<close> builds for an owner, an asset id and a file name.\<close>

definition storage_path_of :: "uuid \<Rightarrow> uuid \<Rightarrow> string \<Rightarrow> string" where
  "storage_path_of uid assetId filename = uid @ ''/'' @ assetId @ ''/'' @ sanitizeFilename filename"

section \<open>Finalizing an upload\<close>

text \<open>
  \<^verbatim>\<open>finalizeUpload\<close>. The ticket is read with \<^verbatim>\<open>.single()\<close>; the update that
  marks it used filters on \<^verbatim>\<open>asset_id\<close> only and its outcome is not inspected; the
  asset update filters on \<^verbatim>\<open>id\<close> only and writes the three values the caller sent.
  \<^verbatim>\<open>clientSha256 ? "ready" : "corrupt"\<close> tests the string for being non-empty.
\<close>

definition finalizeUpload ::
  "request_context \<Rightarrow> uuid \<Rightarrow> string \<Rightarrow> int \<Rightarrow> timestamp \<Rightarrow> db \<Rightarrow> (error + asset_node) \<times> db" where
  "finalizeUpload ctx assetId clientSha256 version now s =
     (case requireAuth ctx of
        Inl e \<Rightarrow> (Inl e, s)
      | Inr uid \<Rightarrow>
          (case single (filter (\<lambda>t. t_asset_id t = assetId \<and> t_user_id t = uid \<and> t_used t = False)
                          (upload_tickets s)) of
             (_, Some ticketError) \<Rightarrow>
               (Inl (GraphQLError ''Invalid or used upload ticket'' INVALID_TICKET), s)
           | (None, None) \<Rightarrow>
               (Inl (GraphQLError ''Invalid or used upload ticket'' INVALID_TICKET), s)
           | (Some ticket, None) \<Rightarrow>
               let s1 = s\<lparr>upload_tickets :=
                            update_rows (\<lambda>t. t_asset_id t = assetId) (\<lambda>t. t\<lparr>t_used := True\<rparr>)
                              (upload_tickets s)\<rparr>;
                   st = (if clientSha256 \<noteq> [] then Ready else Corrupt)
               in (case update_single (\<lambda>a. a_id a = assetId)
                          (\<lambda>a. update_updated_at now
                                  (a\<lparr>a_sha256 := Some clientSha256, a_status := st,
                                     a_version := version\<rparr>))
                          (assets s1) of
                     ((_, Some assetError), _) \<Rightarrow> (Inl assetError, s1)
                   | ((None, None), _) \<Rightarrow> (Inl (PostgrestError ''PGRST116''), s1)
                   | ((Some asset, None), atbl) \<Rightarrow>
                       (Inr (asset_node_of asset), s1\<lparr>assets := atbl\<rparr>))))"

text \<open>
  The edge function \<^verbatim>\<open>hash-object\<close> is the one place that reads an object back and
  digests it. \<open>objects\<close> is the bucket, \<open>digest\<close> the hex SHA-256 of a byte sequence.
  No resolver calls it.
\<close>

definition detectMimeType :: "nat list \<Rightarrow> string option" where
  "detectMimeType bytes =
     (if length bytes < 12 then None
      else if bytes ! 0 = 0xFF \<and> bytes ! 1 = 0xD8 \<and> bytes ! 2 = 0xFF then Some ''image/jpeg''
      else if bytes ! 0 = 0x89 \<and> bytes ! 1 = 0x50 \<and> bytes ! 2 = 0x4E \<and> bytes ! 3 = 0x47
        then Some ''image/png''
      else if bytes ! 0 = 0x52 \<and> bytes ! 1 = 0x49 \<and> bytes ! 2 = 0x46 \<and> bytes ! 3 = 0x46
              \<and> bytes ! 8 = 0x57 \<and> bytes ! 9 = 0x45 \<and> bytes ! 10 = 0x42 \<and> bytes ! 11 = 0x50
        then Some ''image/webp''
      else if bytes ! 0 = 0x25 \<and> bytes ! 1 = 0x50 \<and> bytes ! 2 = 0x44 \<and> bytes ! 3 = 0x46
        then Some ''application/pdf''
      else None)"

record hash_response =
  h_sha256 :: string
  h_size :: nat
  h_detectedMime :: "string option"

definition hash_object ::
  "(nat list \<Rightarrow> string) \<Rightarrow> (string \<rightharpoonup> nat list) \<Rightarrow> string \<Rightarrow> nat + hash_response" where
  "hash_object digest objects path =
     (if path = [] then Inl 400
      else (case objects path of
              None \<Rightarrow> Inl 404
            | Some fileData \<Rightarrow>
                Inr \<lparr>h_sha256 = digest fileData, h_size = length fileData,
                     h_detectedMime = detectMimeType fileData\<rparr>))"

section \<open>Version-guarded operations\<close>

text \<open>
  \<^verbatim>\<open>renameAsset\<close>: one conditional update on \<^verbatim>\<open>id\<close>, \<^verbatim>\<open>owner_id\<close> and
  \<^verbatim>\<open>version\<close> that writes \<^verbatim>\<open>version + 1\<close>; \<^verbatim>\<open>PGRST116\<close> is turned into the
  conflict error, any other error of the store (here \<^verbatim>\<open>22003\<close>, when the new
  version leaves the range of the column) is rethrown.
\<close>

definition renameAsset ::
  "request_context \<Rightarrow> uuid \<Rightarrow> string \<Rightarrow> int \<Rightarrow> timestamp \<Rightarrow> db \<Rightarrow> (error + asset_node) \<times> db" where
  "renameAsset ctx assetId filename version now s =
     (case requireAuth ctx of
        Inl e \<Rightarrow> (Inl e, s)
      | Inr uid \<Rightarrow>
          (case update_asset_single
                  (\<lambda>a. a_id a = assetId \<and> a_owner_id a = uid \<and> a_version a = version)
                  (\<lambda>a. update_updated_at now (a\<lparr>a_filename := filename, a_version := version + 1\<rparr>))
                  (assets s) of
             ((_, Some err), _) \<Rightarrow>
               if error_code err = ''PGRST116''
               then (Inl (GraphQLError ''Version conflict'' CONFLICT), s)
               else (Inl err, s)
           | ((None, None), _) \<Rightarrow> (Inl (PostgrestError ''PGRST116''), s)
           | ((Some asset, None), atbl) \<Rightarrow> (Inr (asset_node_of asset), s\<lparr>assets := atbl\<rparr>)))"

record shared_asset =
  sh_id :: uuid
  sh_asset_id :: uuid
  sh_owner_id :: uuid
  sh_shared_with_email :: string
  sh_can_download :: bool
  sh_revoked :: bool
  sh_created_at :: timestamp

record share_result =
  r_success :: bool
  r_message :: string
  r_share :: "shared_asset option"

text \<open>
  \<^verbatim>\<open>shareAsset\<close> and \<^verbatim>\<open>revokeShare\<close> read the asset under the version guard and
  then write the grant table only. \<open>shareId\<close> stands for \<^verbatim>\<open>crypto.randomUUID()\<close>.
\<close>

definition shareAsset ::
  "request_context \<Rightarrow> uuid \<Rightarrow> string \<Rightarrow> bool \<Rightarrow> int \<Rightarrow> uuid \<Rightarrow> timestamp \<Rightarrow> db
     \<Rightarrow> (error + share_result) \<times> db" where
  "shareAsset ctx assetId toEmail canDownload version shareId now s =
     (case requireAuth ctx of
        Inl e \<Rightarrow> (Inl e, s)
      | Inr uid \<Rightarrow>
          (case single (filter (\<lambda>a. a_id a = assetId \<and> a_owner_id a = uid \<and> a_version a = version)
                          (assets s)) of
             (_, Some assetError) \<Rightarrow> (Inl assetError, s)
           | (None, None) \<Rightarrow> (Inl (PostgrestError ''PGRST116''), s)
           | (Some asset, None) \<Rightarrow>
               (case single (filter (\<lambda>u. u_email u = toEmail) (users s)) of
                  (_, Some userError) \<Rightarrow> (Inl (GraphQLError ''User not found'' NOT_FOUND), s)
                | (None, None) \<Rightarrow> (Inl (GraphQLError ''User not found'' NOT_FOUND), s)
                | (Some targetUser, None) \<Rightarrow>
                    (case upsert_share
                            \<lparr>s_id = shareId, s_asset_id = assetId, s_to_user = u_id targetUser,
                             s_can_download = canDownload, s_created_at = now\<rparr>
                            (assets s) (asset_shares s) of
                       ((_, Some err), _) \<Rightarrow> (Inl err, s)
                     | ((None, None), _) \<Rightarrow> (Inl (PostgrestError ''PGRST116''), s)
                     | ((Some data, None), stbl) \<Rightarrow>
                         (Inr \<lparr>r_success = True, r_message = ''Asset shared successfully'',
                               r_share = Some
                                 \<lparr>sh_id = s_id data, sh_asset_id = s_asset_id data,
                                  sh_owner_id = a_owner_id asset,
                                  sh_shared_with_email = toEmail,
                                  sh_can_download = s_can_download data, sh_revoked = False,
                                  sh_created_at = s_created_at data\<rparr>\<rparr>,
                          s\<lparr>asset_shares := stbl\<rparr>)))))"

definition revokeShare ::
  "request_context \<Rightarrow> uuid \<Rightarrow> string \<Rightarrow> int \<Rightarrow> db \<Rightarrow> (error + share_result) \<times> db" where
  "revokeShare ctx assetId toEmail version s =
     (case requireAuth ctx of
        Inl e \<Rightarrow> (Inl e, s)
      | Inr uid \<Rightarrow>
          (case single (filter (\<lambda>a. a_id a = assetId \<and> a_owner_id a = uid \<and> a_version a = version)
                          (assets s)) of
             (_, Some assetError) \<Rightarrow> (Inl assetError, s)
           | (_, None) \<Rightarrow>
               (case single (filter (\<lambda>u. u_email u = toEmail) (users s)) of
                  (_, Some userError) \<Rightarrow> (Inl (GraphQLError ''User not found'' NOT_FOUND), s)
                | (None, None) \<Rightarrow> (Inl (GraphQLError ''User not found'' NOT_FOUND), s)
                | (Some targetUser, None) \<Rightarrow>
                    (Inr \<lparr>r_success = True, r_message = ''Share revoked successfully'',
                          r_share = None\<rparr>,
                     s\<lparr>asset_shares :=
                         filter (\<lambda>x. \<not> (s_asset_id x = assetId \<and> s_to_user x = u_id targetUser))
                           (asset_shares s)\<rparr>))))"

section \<open>Listing assets\<close>

text \<open>
  \<^verbatim>\<open>myAssets\<close>. \<open>first\<close>, \<open>q\<close> and \<open>after\<close> are optional; \<open>first\<close> is a
  GraphQL \<^verbatim>\<open>Int\<close> and may be negative; \<^verbatim>\<open>args.first || 50\<close> replaces a missing
  value and 0, and an empty \<open>q\<close> is no filter. The cursor is a \<^verbatim>\<open>created_at\<close>
  value. \<open>ilike\<close> is the pattern match of the store, a parameter.
  \<^verbatim>\<open>order("created_at", { ascending: false })\<close> is a stable sort on the negated
  timestamp; the order of rows with equal timestamps is the store's choice.
  \<^verbatim>\<open>.limit(n)\<close> returns the first \<open>n\<close> rows, none for 0, and PostgREST refuses a
  negative \<open>n\<close> with \<^verbatim>\<open>PGRST103\<close>. \<^verbatim>\<open>slice(0, e)\<close> counts a negative \<open>e\<close>
  from the end of the array.
\<close>

record asset_edge =
  e_cursor :: timestamp
  e_node :: asset_node

record page_info =
  p_endCursor :: "timestamp option"
  p_hasNextPage :: bool

record asset_connection =
  edges :: "asset_edge list"
  pageInfo :: page_info

definition order_created_at_desc :: "asset list \<Rightarrow> asset list" where
  "order_created_at_desc rows = sort_key (\<lambda>a. - a_created_at a) rows"

definition limit_rows :: "int \<Rightarrow> 'a list \<Rightarrow> 'a list option \<times> error option" where
  "limit_rows n rows =
     (if n < 0 then (None, Some (PostgrestError ''PGRST103''))
      else (Some (take (nat n) rows), None))"

definition slice0 :: "int \<Rightarrow> 'a list \<Rightarrow> 'a list" where
  "slice0 e xs = (if e < 0 then take (length xs - nat (- e)) xs else take (nat e) xs)"

text \<open>The rows the query selects, in order, before the limit is applied.\<close>

definition myAssets_query ::
  "(string \<Rightarrow> string \<Rightarrow> bool) \<Rightarrow> uuid \<Rightarrow> string option \<Rightarrow> timestamp option \<Rightarrow> db
     \<Rightarrow> asset list" where
  "myAssets_query ilike uid q after s =
     filter (\<lambda>a. case after of None \<Rightarrow> True | Some c \<Rightarrow> a_created_at a > c)
       (filter (\<lambda>a. case q of
                       None \<Rightarrow> True
                     | Some pat \<Rightarrow> pat = [] \<or> ilike (a_filename a) (''%'' @ pat @ ''%''))
          (order_created_at_desc (filter (\<lambda>a. a_owner_id a = uid) (assets s))))"

definition myAssets ::
  "(string \<Rightarrow> string \<Rightarrow> bool) \<Rightarrow> request_context \<Rightarrow> timestamp option \<Rightarrow> int option
     \<Rightarrow> string option \<Rightarrow> db \<Rightarrow> error + asset_connection" where
  "myAssets ilike ctx after first q s =
     (case requireAuth ctx of
        Inl e \<Rightarrow> Inl e
      | Inr uid \<Rightarrow>
          let limit = (case first of None \<Rightarrow> 50 | Some n \<Rightarrow> if n = 0 then 50 else n)
          in (case limit_rows (limit + 1) (myAssets_query ilike uid q after s) of
                (_, Some err) \<Rightarrow> Inl err
              | (data, None) \<Rightarrow>
                  let rows = (case data of None \<Rightarrow> [] | Some d \<Rightarrow> d);
                      hasNextPage = (int (length rows) > limit);
                      nodes = (if hasNextPage then slice0 limit rows else rows)
                  in Inr \<lparr>edges = map (\<lambda>a. \<lparr>e_cursor = a_created_at a,
                                            e_node = asset_node_of a\<rparr>) nodes,
                          pageInfo =
                            \<lparr>p_endCursor = (if length nodes > 0
                                             then Some (a_created_at (last nodes)) else None),
                             p_hasNextPage = hasNextPage\<rparr>\<rparr>))"

section \<open>Reading a version; example states\<close>

text \<open>The version the store holds for an asset id, if there is such a row.\<close>

definition version_of :: "db \<Rightarrow> uuid \<Rightarrow> int option" where
  "version_of s aid = map_option a_version (find (\<lambda>a. a_id a = aid) (assets s))"

definition status_of :: "db \<Rightarrow> uuid \<Rightarrow> status option" where
  "status_of s aid = map_option a_status (find (\<lambda>a. a_id a = aid) (assets s))"

text \<open>
  Two users, Alice and Bob, and the states the scenarios below walk through:
  the empty store, the store after Alice was issued a ticket for \<^verbatim>\<open>photo.jpg\<close> at
  time 1000, and a store with three assets of Alice created at different times.
\<close>

definition alice :: request_context where
  "alice = \<lparr>userId = Some ''u-alice''\<rparr>"

definition bob :: request_context where
  "bob = \<lparr>userId = Some ''u-bob''\<rparr>"

definition gw0 :: gateway where
  "gw0 = \<lparr>createSignedUploadUrl = (\<lambda>path. (Some (''https://blob/put/'' @ path @ ''?sig=1''), None)),
          createSignedUrl = (\<lambda>path ttl. (Some (''https://blob/get/'' @ path @ ''?sig=1''), None))\<rparr>"

definition db_empty :: db where
  "db_empty =
     \<lparr>assets = [], upload_tickets = [], asset_shares = [], download_audits = [],
      users = [\<lparr>u_id = ''u-alice'', u_email = ''alice@example.com''\<rparr>,
               \<lparr>u_id = ''u-bob'', u_email = ''bob@example.com''\<rparr>],
      urlAccessCache = Map.empty\<rparr>"

definition photo :: asset where
  "photo =
     \<lparr>a_id = ''a1'', a_owner_id = ''u-alice'', a_filename = ''photo.jpg'',
      a_mime = ''image/jpeg'', a_size = 1024, a_storage_path = ''u-alice/a1/photo.jpg'',
      a_sha256 = None, a_status = Draft, a_version = 1, a_created_at = 1000,
      a_updated_at = 1000\<rparr>"

definition photo_ticket :: upload_ticket where
  "photo_ticket =
     \<lparr>t_asset_id = ''a1'', t_user_id = ''u-alice'', t_nonce = ''n1'', t_mime = ''image/jpeg'',
      t_size = 1024, t_storage_path = ''u-alice/a1/photo.jpg'', t_expires_at = 601000,
      t_used = False, t_created_at = 1000\<rparr>"

definition db_draft :: db where
  "db_draft = db_empty\<lparr>assets := [photo], upload_tickets := [photo_ticket]\<rparr>"

definition db_three :: db where
  "db_three =
     db_empty\<lparr>assets :=
       [photo\<lparr>a_id := ''a1'', a_storage_path := ''u-alice/a1/photo.jpg'', a_created_at := 1000\<rparr>,
        photo\<lparr>a_id := ''a2'', a_storage_path := ''u-alice/a2/photo.jpg'', a_created_at := 2000,
              a_updated_at := 2000\<rparr>,
        photo\<lparr>a_id := ''a3'', a_storage_path := ''u-alice/a3/photo.jpg'', a_created_at := 3000,
              a_updated_at := 3000\<rparr>]\<rparr>"

text \<open>The store after Bob was handed the access token \<^verbatim>\<open>tok-1\<close> for asset a1 at time 3000.\<close>

definition db_token :: db where
  "db_token =
     db_draft\<lparr>urlAccessCache :=
       (urlAccessCache db_draft)(''tok-1'' \<mapsto>
          \<lparr>c_userId = ''u-bob'', c_assetId = ''a1'', c_expiresAt = 93000\<rparr>)\<rparr>"

text \<open>
  The bucket after Alice uploaded twelve bytes of a JPEG header, and a digest under
  which every object hashes to \<^verbatim>\<open>cafebabe\<close>.
\<close>

definition bucket0 :: "string \<rightharpoonup> nat list" where
  "bucket0 = [''u-alice/a1/photo.jpg'' \<mapsto> [0xFF, 0xD8, 0xFF, 0xE0, 0, 16, 0x4A, 0x46, 0x49, 0x46, 0, 1]]"

definition digest0 :: "nat list \<Rightarrow> string" where
  "digest0 bytes = ''cafebabe''"

text \<open>What \<^verbatim>\<open>finalizeUpload\<close> leaves of the draft state when Alice claims a hash at time \<open>now\<close>.\<close>

definition db_finalized :: "string \<Rightarrow> int \<Rightarrow> timestamp \<Rightarrow> db" where
  "db_finalized clientSha256 version now =
     db_draft\<lparr>assets := [photo\<lparr>a_sha256 := Some clientSha256, a_status := Ready,
                                a_version := version, a_updated_at := now\<rparr>],
              upload_tickets := [photo_ticket\<lparr>t_used := True\<rparr>]\<rparr>"

section \<open>Auxiliary facts about tables\<close>

lemma requireAuth_Inr: "requireAuth ctx = Inr u \<longleftrightarrow> userId ctx = Some u \<and> u \<noteq> []"
  by (auto simp: requireAuth_def split: option.splits)

lemma pk_filter:
  assumes "distinct (map key xs)" and "a \<in> set xs"
  shows "filter (\<lambda>x. key x = key a \<and> Q x) xs = (if Q a then [a] else [])"
  using assms
proof (induction xs)
  case Nil
  then show ?case by simp
next
  case (Cons x xs)
  show ?case
  proof (cases "x = a")
    case True
    with Cons.prems have "key a \<notin> key ` set xs" by simp
    then have "filter (\<lambda>x. key x = key a \<and> Q x) xs = []"
      by (force simp: filter_empty_conv image_iff)
    with True show ?thesis by simp
  next
    case False
    with Cons.prems have in_tl: "a \<in> set xs" and "key x \<noteq> key a"
      by (auto simp: image_iff)
    with Cons show ?thesis by simp
  qed
qed

lemma pk_find:
  assumes "distinct (map key xs)" and "a \<in> set xs"
  shows "find (\<lambda>x. key x = key a) xs = Some a"
  using assms
  by (induction xs) (auto simp: image_iff)

lemma find_update_rows:
  assumes "\<And>x. key (f x) = key x"
  shows "find (\<lambda>x. key x = k) (update_rows P f xs)
           = map_option (\<lambda>r. if P r then f r else r) (find (\<lambda>x. key x = k) xs)"
  using assms by (induction xs) (auto simp: update_rows_def)

lemma update_single_one:
  "filter P tbl = [r] \<Longrightarrow> update_single P f tbl = ((Some (f r), None), update_rows P f tbl)"
  by (simp add: update_single_def)

lemma update_single_none:
  "filter P tbl = [] \<Longrightarrow> update_single P f tbl = ((None, Some (PostgrestError ''PGRST116'')), tbl)"
  by (simp add: update_single_def)

lemma find_not_in: "k \<notin> set (map key xs) \<Longrightarrow> find (\<lambda>x. key x = k) xs = None"
  by (induction xs) auto

lemma find_snoc_other: "key r \<noteq> k \<Longrightarrow> find (\<lambda>x. key x = k) (xs @ [r]) = find (\<lambda>x. key x = k) xs"
  by (induction xs) auto

lemma find_snoc_new:
  "key r \<notin> set (map key xs) \<Longrightarrow> find (\<lambda>x. key x = key r) (xs @ [r]) = Some r"
  by (induction xs) auto

lemma find_key: "find (\<lambda>x. key x = k) xs = Some r \<Longrightarrow> key r = k \<and> r \<in> set xs"
  by (induction xs) (auto split: if_splits)

lemma map_key_update_rows:
  assumes "\<And>x. key (f x) = key x"
  shows "map key (update_rows P f xs) = map key xs"
  using assms by (simp add: update_rows_def)

lemma version_of_update_rows:
  assumes pk: "distinct (map a_id (assets s))"
    and one: "filter P (assets s) = [a]"
    and P: "\<And>x. P x \<Longrightarrow> a_id x = aid"
    and f: "\<And>x. a_id (f x) = a_id x"
  shows "version_of (s\<lparr>assets := update_rows P f (assets s)\<rparr>) b
           = (if b = aid then Some (a_version (f a)) else version_of s b)"
proof -
  from one have "a \<in> set (filter P (assets s))" by simp
  then have a: "a \<in> set (assets s)" "P a" by simp_all
  with P have ida: "a_id a = aid" by simp
  have fnd: "find (\<lambda>x. a_id x = b) (update_rows P f (assets s))
               = map_option (\<lambda>r. if P r then f r else r) (find (\<lambda>x. a_id x = b) (assets s))"
    by (rule find_update_rows [where key = a_id]) (rule f)
  show ?thesis
  proof (cases "b = aid")
    case True
    with pk_find [OF pk a(1)] ida have "find (\<lambda>x. a_id x = b) (assets s) = Some a" by simp
    with fnd a True show ?thesis by (simp add: version_of_def)
  next
    case False
    have "map_option (\<lambda>r. if P r then f r else r) (find (\<lambda>x. a_id x = b) (assets s))
            = find (\<lambda>x. a_id x = b) (assets s)"
    proof (cases "find (\<lambda>x. a_id x = b) (assets s)")
      case None
      then show ?thesis by simp
    next
      case (Some r)
      from find_key [OF Some] have "a_id r = b" by simp
      with False P have "\<not> P r" by auto
      with Some show ?thesis by simp
    qed
    with fnd False show ?thesis by (simp add: version_of_def)
  qed
qed

text \<open>The definitions that evaluate a resolver on a concrete state.\<close>

lemmas example_defs =
  alice_def bob_def gw0_def db_empty_def db_draft_def db_three_def db_token_def photo_def
  photo_ticket_def bucket0_def digest0_def db_finalized_def

lemmas store_defs =
  requireAuth_def single_def maybeSingle_def update_rows_def update_single_def
  update_asset_single_def int4_def insert_asset_def
  insert_ticket_def upsert_share_def insert_audit_def update_updated_at_def asset_node_of_def

lemmas issue_defs =
  createUploadUrl_def ALLOWED_MIMES_def sanitizeFilename_def safe_char_def trim_def is_space_def
  new_asset_def new_ticket_def storage_path_of_def Let_def

section \<open>Issuing: two inserts, no transaction\<close>

text \<open>
  The resolver unfolded: which constraint stops it where, and what has been written by then.
\<close>

lemma createUploadUrl_unfold:
  "createUploadUrl gw ctx filename mime sz assetId nonce now s =
     (case requireAuth ctx of
        Inl e \<Rightarrow> (Inl e, s)
      | Inr uid \<Rightarrow>
          if mime \<notin> set ALLOWED_MIMES
          then (Inl (GraphQLError (''Unsupported file type: '' @ mime) BAD_REQUEST), s)
          else if assetId \<in> set (map a_id (assets s))
                  \<or> storage_path_of uid assetId filename \<in> set (map a_storage_path (assets s))
          then (Inl (PostgrestError ''23505''), s)
          else if assetId \<in> set (map t_asset_id (upload_tickets s))
                  \<or> nonce \<in> set (map t_nonce (upload_tickets s))
          then (Inl (PostgrestError ''23505''),
                s\<lparr>assets := assets s @
                   [new_asset assetId uid filename mime sz (storage_path_of uid assetId filename) now]\<rparr>)
          else
            (case createSignedUploadUrl gw (storage_path_of uid assetId filename) of
               (_, Some urlError) \<Rightarrow> Inl urlError
             | (None, None) \<Rightarrow> Inl (StorageError ''no signed url'')
             | (Some signedUrl, None) \<Rightarrow>
                 Inr \<lparr>k_assetId = assetId, k_storagePath = storage_path_of uid assetId filename,
                      k_uploadUrl = signedUrl, k_expiresAt = now + 10 * 60 * 1000,
                      k_nonce = nonce, k_version = 1\<rparr>,
             s\<lparr>assets := assets s @
                  [new_asset assetId uid filename mime sz (storage_path_of uid assetId filename) now],
               upload_tickets := upload_tickets s @
                  [new_ticket assetId uid (storage_path_of uid assetId filename) mime sz nonce now]\<rparr>))"
  by (simp add: createUploadUrl_def storage_path_of_def insert_asset_def insert_ticket_def Let_def
        new_asset_def new_ticket_def
      split: sum.splits option.splits prod.splits)

lemma createUploadUrl_Inr:
  assumes "createUploadUrl gw ctx filename mime sz assetId nonce now s = (Inr t, s')"
  shows "\<exists>uid. requireAuth ctx = Inr uid \<and> mime \<in> set ALLOWED_MIMES
           \<and> assetId \<notin> set (map a_id (assets s))
           \<and> k_version t = 1 \<and> k_assetId t = assetId \<and> k_expiresAt t = now + 600000
           \<and> assets s' = assets s @
                [new_asset assetId uid filename mime sz (storage_path_of uid assetId filename) now]
           \<and> upload_tickets s' = upload_tickets s @
                [new_ticket assetId uid (storage_path_of uid assetId filename) mime sz nonce now]"
  using assms unfolding createUploadUrl_unfold
  by (auto split: sum.splits if_splits prod.splits option.splits)

lemma createUploadUrl_tickets:
  assumes "createUploadUrl gw ctx filename mime sz assetId nonce now s = (r, s')"
  shows "upload_tickets s' = upload_tickets s
         \<or> (\<exists>uid. assets s' = assets s @
                [new_asset assetId uid filename mime sz (storage_path_of uid assetId filename) now]
              \<and> upload_tickets s' = upload_tickets s @
                [new_ticket assetId uid (storage_path_of uid assetId filename) mime sz nonce now])"
  using assms unfolding createUploadUrl_unfold
  by (auto split: sum.splits if_splits prod.splits option.splits)

lemma createUploadUrl_asset_clash:
  assumes "createUploadUrl gw ctx filename mime sz assetId nonce now s = (r, s')"
    and "assetId \<in> set (map a_id (assets s))"
  shows "isl r \<and> s' = s"
  using assms unfolding createUploadUrl_unfold
  by (auto split: sum.splits if_splits)

lemma createUploadUrl_path_clash:
  assumes "createUploadUrl gw ctx filename mime sz assetId nonce now s = (r, s')"
    and "requireAuth ctx = Inr uid"
    and "storage_path_of uid assetId filename \<in> set (map a_storage_path (assets s))"
  shows "isl r \<and> s' = s"
  using assms unfolding createUploadUrl_unfold
  by (auto split: sum.splits if_splits)

lemma createUploadUrl_ticket_clash:
  assumes "createUploadUrl gw ctx filename mime sz assetId nonce now s = (r, s')"
    and "requireAuth ctx = Inr uid" and "mime \<in> set ALLOWED_MIMES"
    and "assetId \<notin> set (map a_id (assets s))"
    and "storage_path_of uid assetId filename \<notin> set (map a_storage_path (assets s))"
    and "nonce \<in> set (map t_nonce (upload_tickets s))"
  shows "isl r \<and> s' = s\<lparr>assets := assets s @
           [new_asset assetId uid filename mime sz (storage_path_of uid assetId filename) now]\<rparr>"
  using assms unfolding createUploadUrl_unfold
  by (auto split: sum.splits if_splits)

text \<open>
  Issuing a ticket for \<^verbatim>\<open>photo.jpg\<close> on the empty store gives the draft state.
\<close>

lemma db_draft_issued:
  "createUploadUrl gw0 alice ''photo.jpg'' ''image/jpeg'' 1024 ''a1'' ''n1'' 1000 db_empty
     = (Inr \<lparr>k_assetId = ''a1'', k_storagePath = ''u-alice/a1/photo.jpg'',
             k_uploadUrl = ''https://blob/put/u-alice/a1/photo.jpg?sig=1'',
             k_expiresAt = 601000, k_nonce = ''n1'', k_version = 1\<rparr>, db_draft)"
  by (simp add: issue_defs store_defs example_defs)

text \<open>
  Claim C6, as stated, fails. Alice asks for a second ticket and the nonce drawn is the
  one her first ticket already carries: the asset insert succeeds, the ticket insert
  violates the unique constraint on \<^verbatim>\<open>nonce\<close>, the call fails, and the draft asset
  \<^verbatim>\<open>a2\<close> stays in the store with no ticket.
\<close>

theorem createUploadUrl_partial_state_counterexample:
  "fst (createUploadUrl gw0 alice ''scan.png'' ''image/png'' 10 ''a2'' ''n1'' 5000 db_draft)
     = Inl (PostgrestError ''23505'')
   \<and> status_of (snd (createUploadUrl gw0 alice ''scan.png'' ''image/png'' 10 ''a2'' ''n1'' 5000 db_draft)) ''a2''
       = Some Draft
   \<and> ''a2'' \<notin> set (map t_asset_id
        (upload_tickets (snd (createUploadUrl gw0 alice ''scan.png'' ''image/png'' 10 ''a2'' ''n1'' 5000 db_draft))))"
  by (simp add: createUploadUrl_def status_of_def ALLOWED_MIMES_def sanitizeFilename_def safe_char_def
      trim_def is_space_def new_asset_def new_ticket_def Let_def store_defs example_defs)

text \<open>
  Claim C6, amended. \<^verbatim>\<open>createUploadUrl\<close> inserts the asset row first and the ticket
  row second, as two requests. When it succeeds both rows have been appended: the
  asset in status draft at version 1, the ticket unused, expiring ten minutes after
  the current time and carrying the asset's storage path. When the asset id is
  or the storage path is already taken the call fails and the store is unchanged. When the asset insert
  goes through and the nonce is already taken the call fails, no ticket is written
  and the draft asset row stays behind. In every outcome a ticket row is written
  only together with its asset row.
\<close>

theorem createUploadUrl_rows:
  assumes run: "createUploadUrl gw ctx filename mime sz assetId nonce now s = (r, s')"
  shows "(\<forall>t. r = Inr t \<longrightarrow>
            (\<exists>A K. assets s' = assets s @ [A] \<and> upload_tickets s' = upload_tickets s @ [K]
                  \<and> a_id A = assetId \<and> a_status A = Draft \<and> a_version A = 1
                  \<and> t_asset_id K = assetId \<and> t_used K = False
                  \<and> t_expires_at K = now + 10 * 60 * 1000
                  \<and> t_storage_path K = a_storage_path A))
       \<and> (assetId \<in> set (map a_id (assets s)) \<longrightarrow> isl r \<and> s' = s)
       \<and> (\<forall>uid. requireAuth ctx = Inr uid
                \<and> storage_path_of uid assetId filename \<in> set (map a_storage_path (assets s))
              \<longrightarrow> isl r \<and> s' = s)
       \<and> (\<forall>uid. requireAuth ctx = Inr uid \<and> mime \<in> set ALLOWED_MIMES
                \<and> assetId \<notin> set (map a_id (assets s))
                \<and> storage_path_of uid assetId filename \<notin> set (map a_storage_path (assets s))
                \<and> nonce \<in> set (map t_nonce (upload_tickets s))
              \<longrightarrow> isl r \<and> upload_tickets s' = upload_tickets s
                  \<and> (\<exists>A. assets s' = assets s @ [A] \<and> a_id A = assetId \<and> a_status A = Draft))
       \<and> (upload_tickets s' \<noteq> upload_tickets s \<longrightarrow>
            (\<exists>A K. assets s' = assets s @ [A] \<and> upload_tickets s' = upload_tickets s @ [K]
                  \<and> a_id A = assetId \<and> t_asset_id K = assetId))
       \<and> (set (map t_asset_id (upload_tickets s)) \<subseteq> set (map a_id (assets s)) \<longrightarrow>
            set (map t_asset_id (upload_tickets s')) \<subseteq> set (map a_id (assets s')))"
proof (intro conjI allI impI)
  fix t assume "r = Inr t"
  with createUploadUrl_Inr run obtain uid where
    "assets s' = assets s @
       [new_asset assetId uid filename mime sz (storage_path_of uid assetId filename) now]"
    "upload_tickets s' = upload_tickets s @
       [new_ticket assetId uid (storage_path_of uid assetId filename) mime sz nonce now]"
    by blast
  then show "\<exists>A K. assets s' = assets s @ [A] \<and> upload_tickets s' = upload_tickets s @ [K]
                  \<and> a_id A = assetId \<and> a_status A = Draft \<and> a_version A = 1
                  \<and> t_asset_id K = assetId \<and> t_used K = False
                  \<and> t_expires_at K = now + 10 * 60 * 1000
                  \<and> t_storage_path K = a_storage_path A"
    by (simp add: new_asset_def new_ticket_def)
next
  assume "assetId \<in> set (map a_id (assets s))"
  with createUploadUrl_asset_clash [OF run] show "isl r" "s' = s" by simp_all
next
  fix uid
  assume "requireAuth ctx = Inr uid
            \<and> storage_path_of uid assetId filename \<in> set (map a_storage_path (assets s))"
  with createUploadUrl_path_clash [OF run] show "isl r" "s' = s" by simp_all
next
  fix uid
  assume h: "requireAuth ctx = Inr uid \<and> mime \<in> set ALLOWED_MIMES
                \<and> assetId \<notin> set (map a_id (assets s))
                \<and> storage_path_of uid assetId filename \<notin> set (map a_storage_path (assets s))
                \<and> nonce \<in> set (map t_nonce (upload_tickets s))"
  then have res: "isl r \<and> s' = s\<lparr>assets := assets s @
           [new_asset assetId uid filename mime sz (storage_path_of uid assetId filename) now]\<rparr>"
    by (intro createUploadUrl_ticket_clash [OF run]) simp_all
  then show "isl r" by simp
  from res show "upload_tickets s' = upload_tickets s" by simp
  from res show "\<exists>A. assets s' = assets s @ [A] \<and> a_id A = assetId \<and> a_status A = Draft"
    by (simp add: new_asset_def)
next
  assume "upload_tickets s' \<noteq> upload_tickets s"
  with createUploadUrl_tickets [OF run] obtain uid where
    "assets s' = assets s @
       [new_asset assetId uid filename mime sz (storage_path_of uid assetId filename) now]"
    "upload_tickets s' = upload_tickets s @
       [new_ticket assetId uid (storage_path_of uid assetId filename) mime sz nonce now]"
    by blast
  then show "\<exists>A K. assets s' = assets s @ [A] \<and> upload_tickets s' = upload_tickets s @ [K]
                  \<and> a_id A = assetId \<and> t_asset_id K = assetId"
    by (simp add: new_asset_def new_ticket_def)
next
  assume fk: "set (map t_asset_id (upload_tickets s)) \<subseteq> set (map a_id (assets s))"
  from createUploadUrl_tickets [OF run]
  show "set (map t_asset_id (upload_tickets s')) \<subseteq> set (map a_id (assets s'))"
  proof
    assume same: "upload_tickets s' = upload_tickets s"
    have "set (map a_id (assets s)) \<subseteq> set (map a_id (assets s'))"
      using run unfolding createUploadUrl_unfold
      by (auto split: sum.splits if_splits prod.splits option.splits)
    with fk same show ?thesis by auto
  next
    assume "\<exists>uid. assets s' = assets s @
                [new_asset assetId uid filename mime sz (storage_path_of uid assetId filename) now]
              \<and> upload_tickets s' = upload_tickets s @
                [new_ticket assetId uid (storage_path_of uid assetId filename) mime sz nonce now]"
    then obtain A K where
      "assets s' = assets s @ [A]" "upload_tickets s' = upload_tickets s @ [K]"
      "t_asset_id K = a_id A"
      by (auto simp: new_asset_def new_ticket_def)
    with fk show ?thesis by (simp add: subset_insertI2)
  qed
qed

text \<open>
  The three outcomes on concrete states: success, a taken asset id, a taken nonce.
\<close>

theorem createUploadUrl_rows_witness:
  "createUploadUrl gw0 alice ''photo.jpg'' ''image/jpeg'' 1024 ''a1'' ''n1'' 1000 db_empty
     = (Inr \<lparr>k_assetId = ''a1'', k_storagePath = ''u-alice/a1/photo.jpg'',
             k_uploadUrl = ''https://blob/put/u-alice/a1/photo.jpg?sig=1'',
             k_expiresAt = 601000, k_nonce = ''n1'', k_version = 1\<rparr>, db_draft)
   \<and> (\<exists>A K. assets db_draft = assets db_empty @ [A]
           \<and> upload_tickets db_draft = upload_tickets db_empty @ [K]
           \<and> a_status A = Draft \<and> a_version A = 1 \<and> t_used K = False \<and> t_expires_at K = 601000)
   \<and> ''a1'' \<in> set (map a_id (assets db_draft))
   \<and> snd (createUploadUrl gw0 alice ''again.jpg'' ''image/jpeg'' 7 ''a1'' ''n2'' 5000 db_draft) = db_draft
   \<and> ''n1'' \<in> set (map t_nonce (upload_tickets db_draft))
   \<and> isl (fst (createUploadUrl gw0 alice ''scan.png'' ''image/png'' 10 ''a2'' ''n1'' 5000 db_draft))
   \<and> upload_tickets (snd (createUploadUrl gw0 alice ''scan.png'' ''image/png'' 10 ''a2'' ''n1'' 5000 db_draft))
       = upload_tickets db_draft
   \<and> (\<exists>A. assets (snd (createUploadUrl gw0 alice ''scan.png'' ''image/png'' 10 ''a2'' ''n1'' 5000 db_draft))
             = assets db_draft @ [A] \<and> a_id A = ''a2'' \<and> a_status A = Draft)
   \<and> set (map t_asset_id (upload_tickets db_empty)) \<subseteq> set (map a_id (assets db_empty))
   \<and> set (map t_asset_id (upload_tickets db_draft)) \<subseteq> set (map a_id (assets db_draft))"
proof -
  note ok = createUploadUrl_rows [OF db_draft_issued]
  have fk0: "set (map t_asset_id (upload_tickets db_empty)) \<subseteq> set (map a_id (assets db_empty))"
    by (simp add: db_empty_def)
  with ok have fk1: "set (map t_asset_id (upload_tickets db_draft)) \<subseteq> set (map a_id (assets db_draft))"
    by blast
  from ok have both: "\<exists>A K. assets db_draft = assets db_empty @ [A]
           \<and> upload_tickets db_draft = upload_tickets db_empty @ [K]
           \<and> a_status A = Draft \<and> a_version A = 1 \<and> t_used K = False \<and> t_expires_at K = 601000"
    by auto
  have known: "''a1'' \<in> set (map a_id (assets db_draft))"
    by (simp add: example_defs)
  from createUploadUrl_rows [OF surjective_pairing, of gw0 alice "''again.jpg''" "''image/jpeg''" 7
      "''a1''" "''n2''" 5000 db_draft] known
  have clash: "snd (createUploadUrl gw0 alice ''again.jpg'' ''image/jpeg'' 7 ''a1'' ''n2'' 5000 db_draft)
                 = db_draft"
    by blast
  have pre: "requireAuth alice = Inr ''u-alice'' \<and> ''image/png'' \<in> set ALLOWED_MIMES
       \<and> ''a2'' \<notin> set (map a_id (assets db_draft))
       \<and> storage_path_of ''u-alice'' ''a2'' ''scan.png'' \<notin> set (map a_storage_path (assets db_draft))
       \<and> ''n1'' \<in> set (map t_nonce (upload_tickets db_draft))"
    by (simp add: issue_defs store_defs example_defs)
  from createUploadUrl_rows [OF surjective_pairing, of gw0 alice "''scan.png''" "''image/png''" 10
      "''a2''" "''n1''" 5000 db_draft] pre
  have partial:
    "isl (fst (createUploadUrl gw0 alice ''scan.png'' ''image/png'' 10 ''a2'' ''n1'' 5000 db_draft))"
    "upload_tickets (snd (createUploadUrl gw0 alice ''scan.png'' ''image/png'' 10 ''a2'' ''n1'' 5000 db_draft))
       = upload_tickets db_draft"
    "\<exists>A. assets (snd (createUploadUrl gw0 alice ''scan.png'' ''image/png'' 10 ''a2'' ''n1'' 5000 db_draft))
             = assets db_draft @ [A] \<and> a_id A = ''a2'' \<and> a_status A = Draft"
    by blast+
  from db_draft_issued both known clash pre partial fk0 fk1 show ?thesis by blast
qed

section \<open>Finalizing: what the resolver checks\<close>

text \<open>
  The resolver unfolded. With an unused ticket of the caller and the asset row in
  place, the outcome is fixed by the arguments alone: the status is ready exactly
  when the claimed hash is a non-empty string, the stored hash is the claimed one
  and the stored version is the number sent. Neither the ticket's expiry nor any
  stored byte enters. Without an unused ticket the answer is \<^verbatim>\<open>INVALID_TICKET\<close>
  whatever the status of the asset.
\<close>

lemma finalizeUpload_unfold:
  "finalizeUpload ctx assetId clientSha256 version now s =
     (case requireAuth ctx of
        Inl e \<Rightarrow> (Inl e, s)
      | Inr uid \<Rightarrow>
          (case filter (\<lambda>t. t_asset_id t = assetId \<and> t_user_id t = uid \<and> t_used t = False)
                  (upload_tickets s) of
             [ticket] \<Rightarrow>
               (case filter (\<lambda>a. a_id a = assetId) (assets s) of
                  [a] \<Rightarrow>
                    (Inr (asset_node_of
                            (a\<lparr>a_sha256 := Some clientSha256,
                               a_status := (if clientSha256 \<noteq> [] then Ready else Corrupt),
                               a_version := version, a_updated_at := now\<rparr>)),
                     s\<lparr>upload_tickets :=
                         update_rows (\<lambda>t. t_asset_id t = assetId) (\<lambda>t. t\<lparr>t_used := True\<rparr>)
                           (upload_tickets s),
                       assets :=
                         update_rows (\<lambda>a. a_id a = assetId)
                           (\<lambda>a. a\<lparr>a_sha256 := Some clientSha256,
                                  a_status := (if clientSha256 \<noteq> [] then Ready else Corrupt),
                                  a_version := version, a_updated_at := now\<rparr>)
                           (assets s)\<rparr>)
                | _ \<Rightarrow>
                    (Inl (PostgrestError ''PGRST116''),
                     s\<lparr>upload_tickets :=
                         update_rows (\<lambda>t. t_asset_id t = assetId) (\<lambda>t. t\<lparr>t_used := True\<rparr>)
                           (upload_tickets s)\<rparr>))
           | _ \<Rightarrow> (Inl (GraphQLError ''Invalid or used upload ticket'' INVALID_TICKET), s)))"
  by (simp add: finalizeUpload_def single_def update_single_def update_updated_at_def Let_def
      split: sum.splits list.splits)

lemma finalizeUpload_no_live_ticket:
  assumes "requireAuth ctx = Inr uid"
    and "filter (\<lambda>t. t_asset_id t = assetId \<and> t_user_id t = uid \<and> t_used t = False)
           (upload_tickets s) = []"
  shows "finalizeUpload ctx assetId clientSha256 version now s
           = (Inl (GraphQLError ''Invalid or used upload ticket'' INVALID_TICKET), s)"
  using assms by (simp add: finalizeUpload_unfold)

lemma finalizeUpload_live_ticket:
  assumes auth: "requireAuth ctx = Inr uid"
    and pkt: "distinct (map t_asset_id (upload_tickets s))"
    and pka: "distinct (map a_id (assets s))"
    and t: "t \<in> set (upload_tickets s)" "t_asset_id t = assetId" "t_user_id t = uid" "t_used t = False"
    and a: "a \<in> set (assets s)" "a_id a = assetId"
  shows "\<exists>s'. finalizeUpload ctx assetId clientSha256 version now s
           = (Inr (asset_node_of
                    (a\<lparr>a_sha256 := Some clientSha256,
                       a_status := (if clientSha256 \<noteq> [] then Ready else Corrupt),
                       a_version := version, a_updated_at := now\<rparr>)), s')"
proof -
  have "filter (\<lambda>x. t_asset_id x = t_asset_id t \<and> (t_user_id x = uid \<and> t_used x = False))
          (upload_tickets s) = [t]"
    using pk_filter [OF pkt t(1), of "\<lambda>x. t_user_id x = uid \<and> t_used x = False"] t by simp
  moreover have "filter (\<lambda>x. a_id x = a_id a \<and> True) (assets s) = [a]"
    using pk_filter [OF pka a(1), of "\<lambda>x. True"] by simp
  ultimately show ?thesis
    using auth t a by (simp add: finalizeUpload_unfold)
qed

text \<open>
  Claim C1 fails on the code. The object stored for \<^verbatim>\<open>photo.jpg\<close> digests to
  \<^verbatim>\<open>cafebabe\<close>, as \<^verbatim>\<open>hash-object\<close> would report, and Alice claims
  \<^verbatim>\<open>deadbeef\<close>. \<^verbatim>\<open>finalizeUpload\<close> reads neither the bucket nor the digest: it
  marks the asset ready and stores the claimed hash.
\<close>

theorem finalizeUpload_trusts_client_hash:
  "hash_object digest0 bucket0 (a_storage_path photo)
     = Inr \<lparr>h_sha256 = ''cafebabe'', h_size = 12, h_detectedMime = Some ''image/jpeg''\<rparr>
   \<and> finalizeUpload alice ''a1'' ''deadbeef'' 1 2000 db_draft
     = (Inr \<lparr>n_id = ''a1'', n_filename = ''photo.jpg'', n_mime = ''image/jpeg'', n_size = 1024,
             n_sha256 = Some ''deadbeef'', n_status = Ready, n_version = 1, n_createdAt = 1000,
             n_updatedAt = 2000\<rparr>,
        db_finalized ''deadbeef'' 1 2000)"
  by (simp add: hash_object_def detectMimeType_def finalizeUpload_def store_defs example_defs)

text \<open>
  Claim C2 fails on the code. The ticket expires at 601000 and Alice finalizes at
  700000: the call succeeds, the ticket is marked used and the asset becomes ready.
  The resolver never reads \<^verbatim>\<open>expires_at\<close>.
\<close>

theorem finalizeUpload_ignores_expiry:
  "t_expires_at photo_ticket = 601000
   \<and> finalizeUpload alice ''a1'' ''abc123'' 1 700000 db_draft
     = (Inr \<lparr>n_id = ''a1'', n_filename = ''photo.jpg'', n_mime = ''image/jpeg'', n_size = 1024,
             n_sha256 = Some ''abc123'', n_status = Ready, n_version = 1, n_createdAt = 1000,
             n_updatedAt = 700000\<rparr>,
        db_finalized ''abc123'' 1 700000)
   \<and> map t_used (upload_tickets (db_finalized ''abc123'' 1 700000)) = [True]
   \<and> status_of (db_finalized ''abc123'' 1 700000) ''a1'' = Some Ready"
  by (simp add: finalizeUpload_def status_of_def store_defs example_defs)

text \<open>
  Claim C4 fails on the code. After a successful finalize the asset is ready and no
  unused ticket is left; the same call again is answered with \<^verbatim>\<open>INVALID_TICKET\<close>
  instead of the asset. The store is not written, so the used flag is not written twice.
\<close>

theorem finalizeUpload_replay_rejected:
  "snd (finalizeUpload alice ''a1'' ''abc123'' 1 2000 db_draft) = db_finalized ''abc123'' 1 2000
   \<and> status_of (db_finalized ''abc123'' 1 2000) ''a1'' = Some Ready
   \<and> finalizeUpload alice ''a1'' ''abc123'' 1 2001 (db_finalized ''abc123'' 1 2000)
     = (Inl (GraphQLError ''Invalid or used upload ticket'' INVALID_TICKET),
        db_finalized ''abc123'' 1 2000)"
  by (simp add: finalizeUpload_def status_of_def store_defs example_defs)

section \<open>Renaming under the version guard\<close>

lemma list_ex_const: "list_ex (\<lambda>r. c) xs = (c \<and> xs \<noteq> [])"
  by (induction xs) auto

lemma renameAsset_unfold:
  "renameAsset ctx aid fn v now s =
     (case requireAuth ctx of
        Inl e \<Rightarrow> (Inl e, s)
      | Inr u \<Rightarrow>
          (case filter (\<lambda>a. a_id a = aid \<and> a_owner_id a = u \<and> a_version a = v) (assets s) of
             [] \<Rightarrow> (Inl (GraphQLError ''Version conflict'' CONFLICT), s)
           | [a] \<Rightarrow>
               if int4 (v + 1)
               then (Inr (asset_node_of
                            (a\<lparr>a_filename := fn, a_version := v + 1, a_updated_at := now\<rparr>)),
                     s\<lparr>assets :=
                         update_rows (\<lambda>a. a_id a = aid \<and> a_owner_id a = u \<and> a_version a = v)
                           (\<lambda>a. a\<lparr>a_filename := fn, a_version := v + 1, a_updated_at := now\<rparr>)
                           (assets s)\<rparr>)
               else (Inl (PostgrestError ''22003''), s)
           | _ \<Rightarrow>
               if int4 (v + 1) then (Inl (GraphQLError ''Version conflict'' CONFLICT), s)
               else (Inl (PostgrestError ''22003''), s)))"
  by (simp add: renameAsset_def update_asset_single_def update_single_def update_updated_at_def
        list_ex_const
      split: sum.splits list.splits)

lemma renameAsset_Inr:
  assumes "renameAsset ctx aid fn v now s = (Inr n, s')"
  shows "\<exists>u a. requireAuth ctx = Inr u \<and> int4 (v + 1)
           \<and> filter (\<lambda>a. a_id a = aid \<and> a_owner_id a = u \<and> a_version a = v) (assets s) = [a]
           \<and> n = asset_node_of (a\<lparr>a_filename := fn, a_version := v + 1, a_updated_at := now\<rparr>)
           \<and> s' = s\<lparr>assets := update_rows (\<lambda>a. a_id a = aid \<and> a_owner_id a = u \<and> a_version a = v)
                  (\<lambda>a. a\<lparr>a_filename := fn, a_version := v + 1, a_updated_at := now\<rparr>) (assets s)\<rparr>"
  using assms unfolding renameAsset_unfold
  by (simp split: sum.splits list.splits if_splits)

lemma renameAsset_Inl:
  assumes "renameAsset ctx aid fn v now s = (Inl e, s')"
  shows "s' = s"
  using assms unfolding renameAsset_unfold
  by (simp split: sum.splits list.splits if_splits)

lemma renameAsset_no_row:
  assumes "requireAuth ctx = Inr u"
    and "filter (\<lambda>a. a_id a = assetId \<and> a_owner_id a = u \<and> a_version a = version) (assets s) = []"
  shows "renameAsset ctx assetId filename version now s
           = (Inl (GraphQLError ''Version conflict'' CONFLICT), s)"
  using assms by (simp add: renameAsset_unfold)

lemma renameAsset_one_row:
  assumes "requireAuth ctx = Inr u"
    and "filter (\<lambda>a. a_id a = assetId \<and> a_owner_id a = u \<and> a_version a = version) (assets s) = [a]"
  shows "renameAsset ctx assetId filename version now s
           = (if int4 (version + 1)
              then (Inr (asset_node_of
                           (a\<lparr>a_filename := filename, a_version := version + 1, a_updated_at := now\<rparr>)),
                    s\<lparr>assets :=
                        update_rows (\<lambda>a. a_id a = assetId \<and> a_owner_id a = u \<and> a_version a = version)
                          (\<lambda>a. a\<lparr>a_filename := filename, a_version := version + 1, a_updated_at := now\<rparr>)
                          (assets s)\<rparr>)
              else (Inl (PostgrestError ''22003''), s))"
  using assms by (simp add: renameAsset_unfold)

text \<open>Under the primary key the guarded update rewrites the one row with the id.\<close>

lemma update_rows_pk:
  assumes pk: "distinct (map key xs)" and a: "a \<in> set xs" and Pa: "P a"
    and P: "\<And>x. P x \<Longrightarrow> key x = key a"
  shows "update_rows P f xs = map (\<lambda>x. if key x = key a then f x else x) xs"
  unfolding update_rows_def
proof (rule map_cong [OF refl])
  fix x assume x: "x \<in> set xs"
  have "P x \<longleftrightarrow> key x = key a"
  proof
    assume "key x = key a"
    with pk a x have "x = a" by (metis distinct_map inj_onD)
    with Pa show "P x" by simp
  qed (rule P)
  then show "(if P x then f x else x) = (if key x = key a then f x else x)" by simp
qed

text \<open>
  Claim C5, as stated, fails. A finalize that carries the version 2147483647 stores it.
  Alice, the owner, then renames the asset and presents that current version: the
  update would write 2147483648 into the \<^verbatim>\<open>int\<close> column, the store answers
  \<^verbatim>\<open>22003\<close>, the resolver rethrows it and the asset keeps its name and version.
\<close>

theorem renameAsset_at_ceiling_counterexample:
  "snd (finalizeUpload alice ''a1'' ''abc123'' 2147483647 2000 db_draft)
     = db_finalized ''abc123'' 2147483647 2000
   \<and> version_of (db_finalized ''abc123'' 2147483647 2000) ''a1'' = Some 2147483647
   \<and> renameAsset alice ''a1'' ''new.jpg'' 2147483647 3000 (db_finalized ''abc123'' 2147483647 2000)
       = (Inl (PostgrestError ''22003''), db_finalized ''abc123'' 2147483647 2000)"
  by (simp add: finalizeUpload_def renameAsset_def version_of_def store_defs example_defs)

text \<open>
  Claim C5, amended. Let the asset table respect its primary key, let the stored
  version lie in the range of its column and let the caller own the asset. A rename
  that presents the asset's current version, when that version is below 2147483647,
  succeeds: it returns the asset under the new name with the version one higher, and
  in the store exactly the row of this asset is rewritten, to the new name, the
  version one higher and the current time; a second rename that reuses the version
  of the first then fails with the conflict error. At the current version 2147483647
  the store refuses the write with \<^verbatim>\<open>22003\<close>, the resolver rethrows that error and
  the store is unchanged. A rename that presents any other version fails with the
  conflict error (extension code \<^verbatim>\<open>CONFLICT\<close>) and leaves the store as it was: the
  resolver makes one attempt and does not retry.
\<close>

theorem renameAsset_version_guard:
  assumes auth: "requireAuth ctx = Inr u"
    and pk: "distinct (map a_id (assets s))"
    and row: "a \<in> set (assets s)" "a_id a = assetId" "a_owner_id a = u"
    and rng: "int4 (a_version a)"
  shows "(version = a_version a \<and> a_version a < 2147483647 \<longrightarrow>
            renameAsset ctx assetId filename version now s
              = (Inr (asset_node_of
                        (a\<lparr>a_filename := filename, a_version := a_version a + 1,
                           a_updated_at := now\<rparr>)),
                 s\<lparr>assets :=
                     map (\<lambda>x. if a_id x = assetId
                               then x\<lparr>a_filename := filename, a_version := a_version a + 1,
                                      a_updated_at := now\<rparr>
                               else x) (assets s)\<rparr>)
            \<and> version_of (snd (renameAsset ctx assetId filename version now s)) assetId
                = Some (a_version a + 1)
            \<and> (\<forall>filename' now'.
                  renameAsset ctx assetId filename' version now'
                      (snd (renameAsset ctx assetId filename version now s))
                    = (Inl (GraphQLError ''Version conflict'' CONFLICT),
                       snd (renameAsset ctx assetId filename version now s))))
       \<and> (version = a_version a \<and> a_version a = 2147483647 \<longrightarrow>
            renameAsset ctx assetId filename version now s = (Inl (PostgrestError ''22003''), s))
       \<and> (version \<noteq> a_version a \<longrightarrow>
            renameAsset ctx assetId filename version now s
              = (Inl (GraphQLError ''Version conflict'' CONFLICT), s))"
proof (intro conjI impI)
  let ?P = "\<lambda>x. a_id x = assetId \<and> a_owner_id x = u \<and> a_version x = version"
  let ?f = "\<lambda>x. x\<lparr>a_filename := filename, a_version := version + 1, a_updated_at := now\<rparr>"
  have sel: "filter ?P (assets s) = (if a_owner_id a = u \<and> a_version a = version then [a] else [])"
    using pk_filter [OF pk row(1), of "\<lambda>x. a_owner_id x = u \<and> a_version x = version"] row(2)
    by simp
  {
    assume "version \<noteq> a_version a"
    with sel have "filter ?P (assets s) = []" by auto
    then show "renameAsset ctx assetId filename version now s
              = (Inl (GraphQLError ''Version conflict'' CONFLICT), s)"
      by (rule renameAsset_no_row [OF auth])
  }
  {
    assume top: "version = a_version a \<and> a_version a = 2147483647"
    with sel row have "filter ?P (assets s) = [a]" by simp
    from renameAsset_one_row [OF auth this] top
    show "renameAsset ctx assetId filename version now s = (Inl (PostgrestError ''22003''), s)"
      by (simp add: int4_def)
  }
  {
    assume below: "version = a_version a \<and> a_version a < 2147483647"
    then have cur: "version = a_version a" by simp
    from below rng have ok: "int4 (version + 1)" by (simp add: int4_def)
    define s' where
      "s' = s\<lparr>assets := map (\<lambda>x. if a_id x = assetId
                                   then x\<lparr>a_filename := filename, a_version := a_version a + 1,
                                          a_updated_at := now\<rparr>
                                   else x) (assets s)\<rparr>"
    from cur sel row have one: "filter ?P (assets s) = [a]" by simp
    have Pa: "?P a" using cur row by simp
    have tbl: "update_rows ?P ?f (assets s)
                 = map (\<lambda>x. if a_id x = a_id a then ?f x else x) (assets s)"
      by (rule update_rows_pk [where key = a_id and P = ?P and f = ?f, OF pk row(1) Pa])
         (simp add: row)
    have res: "renameAsset ctx assetId filename version now s
                 = (Inr (asset_node_of
                           (a\<lparr>a_filename := filename, a_version := a_version a + 1,
                              a_updated_at := now\<rparr>)), s')"
      using renameAsset_one_row [OF auth one] ok tbl cur row by (simp add: s'_def)
    then show "renameAsset ctx assetId filename version now s
              = (Inr (asset_node_of
                        (a\<lparr>a_filename := filename, a_version := a_version a + 1,
                           a_updated_at := now\<rparr>)),
                 s\<lparr>assets :=
                     map (\<lambda>x. if a_id x = assetId
                               then x\<lparr>a_filename := filename, a_version := a_version a + 1,
                                      a_updated_at := now\<rparr>
                               else x) (assets s)\<rparr>)"
      by (simp add: s'_def)
    from res have snd_eq: "snd (renameAsset ctx assetId filename version now s) = s'" by simp
    have "find (\<lambda>x. a_id x = assetId) (assets s) = Some a"
      using pk_find [OF pk row(1)] row(2) by simp
    then have "find (\<lambda>x. a_id x = assetId) (assets s')
                 = Some (a\<lparr>a_filename := filename, a_version := a_version a + 1,
                           a_updated_at := now\<rparr>)"
      using find_update_rows [where key = a_id and k = assetId and P = "\<lambda>x. a_id x = assetId"
          and f = "\<lambda>x. x\<lparr>a_filename := filename, a_version := a_version a + 1, a_updated_at := now\<rparr>"
          and xs = "assets s"] row
      by (simp add: s'_def update_rows_def)
    then show "version_of (snd (renameAsset ctx assetId filename version now s)) assetId
                 = Some (a_version a + 1)"
      by (simp add: snd_eq version_of_def)
    have none: "filter ?P (assets s') = []"
    proof -
      have "\<not> ?P y" if "y \<in> set (assets s')" for y
      proof
        assume Py: "?P y"
        from that have
          "y \<in> (\<lambda>x. if a_id x = assetId
                       then x\<lparr>a_filename := filename, a_version := a_version a + 1,
                              a_updated_at := now\<rparr>
                       else x) ` set (assets s)"
          unfolding s'_def by simp
        then obtain x where
          y: "y = (if a_id x = assetId
                   then x\<lparr>a_filename := filename, a_version := a_version a + 1,
                          a_updated_at := now\<rparr>
                   else x)"
          by (rule imageE)
        from Py y have "a_id x = assetId" by (simp split: if_splits)
        with y have "a_version y = a_version a + 1" by simp
        with Py cur show False by simp
      qed
      then show ?thesis unfolding filter_empty_conv by blast
    qed
    have "renameAsset ctx assetId filename' version now' s'
            = (Inl (GraphQLError ''Version conflict'' CONFLICT), s')" for filename' now'
      by (rule renameAsset_no_row [OF auth none])
    then show "\<forall>filename' now'.
                  renameAsset ctx assetId filename' version now'
                      (snd (renameAsset ctx assetId filename version now s))
                    = (Inl (GraphQLError ''Version conflict'' CONFLICT),
                       snd (renameAsset ctx assetId filename version now s))"
      by (simp add: snd_eq)
  }
qed

text \<open>
  The scenario of the specification: renaming \<^verbatim>\<open>photo.jpg\<close> at version 1 stores
  \<^verbatim>\<open>new.jpg\<close> at version 2, reusing version 1 afterwards is a conflict, and so is
  presenting version 7. At the ceiling the store's error comes back.
\<close>

theorem renameAsset_version_guard_witness:
  "requireAuth alice = Inr ''u-alice'' \<and> distinct (map a_id (assets db_draft))
   \<and> photo \<in> set (assets db_draft) \<and> a_version photo = 1 \<and> int4 1
   \<and> renameAsset alice ''a1'' ''new.jpg'' 1 2000 db_draft
       = (Inr \<lparr>n_id = ''a1'', n_filename = ''new.jpg'', n_mime = ''image/jpeg'', n_size = 1024,
               n_sha256 = None, n_status = Draft, n_version = 2, n_createdAt = 1000,
               n_updatedAt = 2000\<rparr>,
          db_draft\<lparr>assets := [photo\<lparr>a_filename := ''new.jpg'', a_version := 2,
                                        a_updated_at := 2000\<rparr>]\<rparr>)
   \<and> renameAsset alice ''a1'' ''other.jpg'' 1 3000
         (snd (renameAsset alice ''a1'' ''new.jpg'' 1 2000 db_draft))
       = (Inl (GraphQLError ''Version conflict'' CONFLICT),
          snd (renameAsset alice ''a1'' ''new.jpg'' 1 2000 db_draft))
   \<and> renameAsset alice ''a1'' ''new.jpg'' 7 2000 db_draft
       = (Inl (GraphQLError ''Version conflict'' CONFLICT), db_draft)
   \<and> renameAsset alice ''a1'' ''new.jpg'' 2147483647 3000 (db_finalized ''abc123'' 2147483647 2000)
       = (Inl (PostgrestError ''22003''), db_finalized ''abc123'' 2147483647 2000)"
proof -
  have auth: "requireAuth alice = Inr ''u-alice''"
    by (simp add: requireAuth_def alice_def)
  have pk: "distinct (map a_id (assets db_draft))"
    by (simp add: db_draft_def db_empty_def)
  have row: "photo \<in> set (assets db_draft)" "a_id photo = ''a1''" "a_owner_id photo = ''u-alice''"
    by (simp_all add: db_draft_def db_empty_def photo_def)
  have v: "a_version photo = 1"
    by (simp add: photo_def)
  have rng: "int4 (a_version photo)" "int4 1"
    by (simp_all add: int4_def photo_def)
  note cur = renameAsset_version_guard
    [OF auth pk row rng(1), where version = 1 and filename = "''new.jpg''" and now = 2000]
  note stale = renameAsset_version_guard
    [OF auth pk row rng(1), where version = 7 and filename = "''new.jpg''" and now = 2000]
  have lt: "1 = a_version photo \<and> a_version photo < 2147483647"
    by (simp add: photo_def)
  from cur lt have raw:
    "renameAsset alice ''a1'' ''new.jpg'' 1 2000 db_draft
       = (Inr (asset_node_of
                 (photo\<lparr>a_filename := ''new.jpg'', a_version := a_version photo + 1,
                        a_updated_at := 2000\<rparr>)),
          db_draft\<lparr>assets :=
             map (\<lambda>x. if a_id x = ''a1''
                       then x\<lparr>a_filename := ''new.jpg'', a_version := a_version photo + 1,
                              a_updated_at := 2000\<rparr>
                       else x) (assets db_draft)\<rparr>)"
    by blast
  then have ok:
    "renameAsset alice ''a1'' ''new.jpg'' 1 2000 db_draft
       = (Inr \<lparr>n_id = ''a1'', n_filename = ''new.jpg'', n_mime = ''image/jpeg'', n_size = 1024,
               n_sha256 = None, n_status = Draft, n_version = 2, n_createdAt = 1000,
               n_updatedAt = 2000\<rparr>,
          db_draft\<lparr>assets := [photo\<lparr>a_filename := ''new.jpg'', a_version := 2,
                                        a_updated_at := 2000\<rparr>]\<rparr>)"
    by (simp add: asset_node_of_def photo_def db_draft_def db_empty_def)
  from cur lt have again:
    "renameAsset alice ''a1'' ''other.jpg'' 1 3000
         (snd (renameAsset alice ''a1'' ''new.jpg'' 1 2000 db_draft))
       = (Inl (GraphQLError ''Version conflict'' CONFLICT),
          snd (renameAsset alice ''a1'' ''new.jpg'' 1 2000 db_draft))"
    by blast
  from stale v have conflict:
    "renameAsset alice ''a1'' ''new.jpg'' 7 2000 db_draft
       = (Inl (GraphQLError ''Version conflict'' CONFLICT), db_draft)"
    by simp
  let ?top = "db_finalized ''abc123'' 2147483647 2000"
  let ?row = "photo\<lparr>a_sha256 := Some ''abc123'', a_status := Ready, a_version := 2147483647,
                     a_updated_at := 2000\<rparr>"
  have pk': "distinct (map a_id (assets ?top))"
    by (simp add: db_finalized_def db_draft_def db_empty_def)
  have row': "?row \<in> set (assets ?top)" "a_id ?row = ''a1''" "a_owner_id ?row = ''u-alice''"
    by (simp_all add: db_finalized_def db_draft_def db_empty_def photo_def)
  have rng': "int4 (a_version ?row)"
    by (simp add: int4_def)
  from renameAsset_version_guard
    [OF auth pk' row' rng', where version = 2147483647 and filename = "''new.jpg''" and now = 3000]
  have ceiling:
    "renameAsset alice ''a1'' ''new.jpg'' 2147483647 3000 ?top = (Inl (PostgrestError ''22003''), ?top)"
    by simp
  from auth pk row(1) v rng(2) ok again conflict ceiling show ?thesis by simp
qed

text \<open>
  Claim C10. Whenever the conditional update of \<^verbatim>\<open>renameAsset\<close> selects no row,
  the resolver raises the one conflict error with extension code \<^verbatim>\<open>CONFLICT\<close> and
  changes nothing: this is so when no asset has the id, when the asset belongs to
  someone else, and when the presented version is not the stored one. None of the
  three is reported as \<^verbatim>\<open>NOT_FOUND\<close> or \<^verbatim>\<open>FORBIDDEN\<close>.
\<close>

theorem renameAsset_zero_rows_conflict:
  assumes auth: "requireAuth ctx = Inr u"
  shows "(filter (\<lambda>a. a_id a = assetId \<and> a_owner_id a = u \<and> a_version a = version) (assets s) = []
            \<longrightarrow> renameAsset ctx assetId filename version now s
                  = (Inl (GraphQLError ''Version conflict'' CONFLICT), s))
       \<and> (assetId \<notin> set (map a_id (assets s))
            \<longrightarrow> renameAsset ctx assetId filename version now s
                  = (Inl (GraphQLError ''Version conflict'' CONFLICT), s))
       \<and> (distinct (map a_id (assets s))
            \<and> (\<exists>a \<in> set (assets s). a_id a = assetId \<and> a_owner_id a \<noteq> u)
            \<longrightarrow> renameAsset ctx assetId filename version now s
                  = (Inl (GraphQLError ''Version conflict'' CONFLICT), s))
       \<and> (distinct (map a_id (assets s))
            \<and> (\<exists>a \<in> set (assets s). a_id a = assetId \<and> a_version a \<noteq> version)
            \<longrightarrow> renameAsset ctx assetId filename version now s
                  = (Inl (GraphQLError ''Version conflict'' CONFLICT), s))"
proof -
  let ?P = "\<lambda>a. a_id a = assetId \<and> a_owner_id a = u \<and> a_version a = version"
  let ?conflict = "renameAsset ctx assetId filename version now s
                     = (Inl (GraphQLError ''Version conflict'' CONFLICT), s)"
  have zero: "filter ?P (assets s) = [] \<Longrightarrow> ?conflict"
    by (rule renameAsset_no_row [OF auth])
  have unknown: "assetId \<notin> set (map a_id (assets s)) \<Longrightarrow> ?conflict"
    by (rule zero) (auto simp: filter_empty_conv)
  have other: ?conflict
    if pk: "distinct (map a_id (assets s))"
      and a: "a \<in> set (assets s)" "a_id a = assetId" "a_owner_id a \<noteq> u \<or> a_version a \<noteq> version"
    for a
  proof (rule zero)
    have "filter (\<lambda>x. a_id x = a_id a \<and> (a_owner_id x = u \<and> a_version x = version)) (assets s)
            = (if a_owner_id a = u \<and> a_version a = version then [a] else [])"
      by (rule pk_filter [OF pk a(1)])
    with a show "filter ?P (assets s) = []" by auto
  qed
  from zero unknown other show ?thesis by blast
qed

text \<open>
  Bob renames an asset that does not exist, then Alice's asset, then Alice's asset
  with a wrong version: the same error each time.
\<close>

theorem renameAsset_zero_rows_conflict_witness:
  "requireAuth bob = Inr ''u-bob''
   \<and> distinct (map a_id (assets db_draft))
   \<and> ''nope'' \<notin> set (map a_id (assets db_draft))
   \<and> renameAsset bob ''nope'' ''x.jpg'' 1 2000 db_draft
       = (Inl (GraphQLError ''Version conflict'' CONFLICT), db_draft)
   \<and> (\<exists>a \<in> set (assets db_draft). a_id a = ''a1'' \<and> a_owner_id a \<noteq> ''u-bob'')
   \<and> renameAsset bob ''a1'' ''x.jpg'' 1 2000 db_draft
       = (Inl (GraphQLError ''Version conflict'' CONFLICT), db_draft)
   \<and> (\<exists>a \<in> set (assets db_draft). a_id a = ''a1'' \<and> a_version a \<noteq> 5)
   \<and> renameAsset bob ''a1'' ''x.jpg'' 5 2000 db_draft
       = (Inl (GraphQLError ''Version conflict'' CONFLICT), db_draft)
   \<and> filter (\<lambda>a. a_id a = ''a1'' \<and> a_owner_id a = ''u-bob'' \<and> a_version a = 1) (assets db_draft) = []"
proof -
  have auth: "requireAuth bob = Inr ''u-bob''"
    by (simp add: requireAuth_def bob_def)
  have pk: "distinct (map a_id (assets db_draft))"
    by (simp add: db_draft_def db_empty_def)
  have unknown: "''nope'' \<notin> set (map a_id (assets db_draft))"
    by (simp add: db_draft_def db_empty_def photo_def)
  have foreign: "\<exists>a \<in> set (assets db_draft). a_id a = ''a1'' \<and> a_owner_id a \<noteq> ''u-bob''"
    by (simp add: db_draft_def db_empty_def photo_def)
  have stale: "\<exists>a \<in> set (assets db_draft). a_id a = ''a1'' \<and> a_version a \<noteq> 5"
    by (simp add: db_draft_def db_empty_def photo_def)
  have zero: "filter (\<lambda>a. a_id a = ''a1'' \<and> a_owner_id a = ''u-bob'' \<and> a_version a = 1)
                (assets db_draft) = []"
    by (simp add: db_draft_def db_empty_def photo_def)
  note T = renameAsset_zero_rows_conflict [OF auth, where s = db_draft and filename = "''x.jpg''" and now = 2000]
  from T [where assetId = "''nope''" and version = 1] unknown
  have 1: "renameAsset bob ''nope'' ''x.jpg'' 1 2000 db_draft
       = (Inl (GraphQLError ''Version conflict'' CONFLICT), db_draft)" by blast
  from T [where assetId = "''a1''" and version = 1] pk foreign
  have 2: "renameAsset bob ''a1'' ''x.jpg'' 1 2000 db_draft
       = (Inl (GraphQLError ''Version conflict'' CONFLICT), db_draft)" by blast
  from T [where assetId = "''a1''" and version = 5] pk stale
  have 3: "renameAsset bob ''a1'' ''x.jpg'' 5 2000 db_draft
       = (Inl (GraphQLError ''Version conflict'' CONFLICT), db_draft)" by blast
  from auth pk unknown foreign stale zero 1 2 3 show ?thesis by blast
qed

section \<open>The version counter\<close>

lemma shareAsset_assets: "assets (snd (shareAsset ctx aid email cd v sid now s)) = assets s"
  by (simp add: shareAsset_def single_def upsert_share_def split: sum.splits list.splits)

lemma revokeShare_assets: "assets (snd (revokeShare ctx aid email v s)) = assets s"
  by (simp add: revokeShare_def single_def split: sum.splits list.splits)

text \<open>
  Share and revoke read the asset under the guard on id, owner and version: with no
  such row they rethrow the store's error and write nothing, and they are accepted
  only when there is one.
\<close>

lemma shareAsset_no_row:
  assumes "filter (\<lambda>a. a_id a = aid \<and> a_owner_id a = u \<and> a_version a = v) (assets s) = []"
    and "requireAuth ctx = Inr u"
  shows "shareAsset ctx aid email cd v sid now s = (Inl (PostgrestError ''PGRST116''), s)"
  using assms by (simp add: shareAsset_def single_def)

lemma revokeShare_no_row:
  assumes "filter (\<lambda>a. a_id a = aid \<and> a_owner_id a = u \<and> a_version a = v) (assets s) = []"
    and "requireAuth ctx = Inr u"
  shows "revokeShare ctx aid email v s = (Inl (PostgrestError ''PGRST116''), s)"
  using assms by (simp add: revokeShare_def single_def)

lemma shareAsset_Inr:
  assumes "shareAsset ctx aid email cd v sid now s = (Inr x, s')"
  shows "\<exists>u a. requireAuth ctx = Inr u
           \<and> filter (\<lambda>a. a_id a = aid \<and> a_owner_id a = u \<and> a_version a = v) (assets s) = [a]"
  using assms by (simp add: shareAsset_def single_def split: sum.splits list.splits)

lemma revokeShare_Inr:
  assumes "revokeShare ctx aid email v s = (Inr x, s')"
  shows "\<exists>u a. requireAuth ctx = Inr u
           \<and> filter (\<lambda>a. a_id a = aid \<and> a_owner_id a = u \<and> a_version a = v) (assets s) = [a]"
  using assms by (simp add: revokeShare_def single_def split: sum.splits list.splits)

lemma unauthenticated_share:
  assumes "requireAuth ctx = Inl e"
  shows "shareAsset ctx aid email cd v sid now s = (Inl e, s)"
    and "revokeShare ctx aid email v s = (Inl e, s)"
  using assms by (simp_all add: shareAsset_def revokeShare_def)

text \<open>Under the primary key a row selected by the guard carries the stored version.\<close>

lemma guard_version:
  assumes pk: "distinct (map a_id (assets s))"
    and sel: "a \<in> set (filter (\<lambda>a. a_id a = aid \<and> a_owner_id a = u \<and> a_version a = v) (assets s))"
  shows "version_of s aid = Some v"
proof -
  from sel have a: "a \<in> set (assets s)" "a_id a = aid" "a_version a = v" by simp_all
  with pk_find [OF pk a(1)] show ?thesis by (simp add: version_of_def)
qed

lemma guard_stale:
  assumes pk: "distinct (map a_id (assets s))"
    and stale: "version_of s aid \<noteq> Some v"
  shows "filter (\<lambda>a. a_id a = aid \<and> a_owner_id a = u \<and> a_version a = v) (assets s) = []"
proof (rule ccontr)
  assume "filter (\<lambda>a. a_id a = aid \<and> a_owner_id a = u \<and> a_version a = v) (assets s) \<noteq> []"
  then obtain a where
    "a \<in> set (filter (\<lambda>a. a_id a = aid \<and> a_owner_id a = u \<and> a_version a = v) (assets s))"
    by (cases "filter (\<lambda>a. a_id a = aid \<and> a_owner_id a = u \<and> a_version a = v) (assets s)") auto
  from guard_version [OF pk this] stale show False by simp
qed

text \<open>What issuing does to the asset table: nothing, or one new row with a fresh id.\<close>

lemma createUploadUrl_assets:
  assumes "createUploadUrl gw ctx filename mime sz aid nonce now s = (r, s')"
  shows "assets s' = assets s
         \<or> (aid \<notin> set (map a_id (assets s))
            \<and> (\<exists>uid. assets s' = assets s @
                  [new_asset aid uid filename mime sz (storage_path_of uid aid filename) now]))"
  using assms unfolding createUploadUrl_unfold
  by (auto split: sum.splits if_splits prod.splits option.splits)

lemma db_draft_renamed:
  "renameAsset alice ''a1'' ''new.jpg'' 1 2000 db_draft
     = (Inr \<lparr>n_id = ''a1'', n_filename = ''new.jpg'', n_mime = ''image/jpeg'', n_size = 1024,
             n_sha256 = None, n_status = Draft, n_version = 2, n_createdAt = 1000,
             n_updatedAt = 2000\<rparr>,
        db_draft\<lparr>assets := [photo\<lparr>a_filename := ''new.jpg'', a_version := 2,
                                      a_updated_at := 2000\<rparr>]\<rparr>)"
  by (simp add: renameAsset_def store_defs example_defs)

text \<open>
  Claim C3, as stated, fails. In the draft state the version of \<^verbatim>\<open>a1\<close> is 1. An
  accepted share and an accepted revoke leave it at 1, and an accepted finalize that
  carries the number 42 sets it to 42.
\<close>

theorem version_not_stepped_counterexample:
  "version_of db_draft ''a1'' = Some 1
   \<and> \<not> isl (fst (shareAsset alice ''a1'' ''bob@example.com'' True 1 ''s1'' 3000 db_draft))
   \<and> version_of (snd (shareAsset alice ''a1'' ''bob@example.com'' True 1 ''s1'' 3000 db_draft)) ''a1''
       = Some 1
   \<and> \<not> isl (fst (revokeShare alice ''a1'' ''bob@example.com'' 1 db_draft))
   \<and> version_of (snd (revokeShare alice ''a1'' ''bob@example.com'' 1 db_draft)) ''a1'' = Some 1
   \<and> \<not> isl (fst (finalizeUpload alice ''a1'' ''abc123'' 42 2000 db_draft))
   \<and> version_of (snd (finalizeUpload alice ''a1'' ''abc123'' 42 2000 db_draft)) ''a1'' = Some 42"
  by (simp add: shareAsset_def revokeShare_def finalizeUpload_def version_of_def store_defs example_defs)

text \<open>
  Claim C3, amended. Let the asset table respect its primary key. Every asset row
  that issuing a ticket writes, also the one a failed ticket insert leaves behind,
  starts at version 1, and issuing touches no other version. An accepted rename at
  version \<open>v\<close> finds the counter at \<open>v\<close> and leaves it at \<open>v + 1\<close>; a rejected rename
  changes nothing. Share and revoke are checked against the presented version: they
  are accepted only when the counter stands at the presented version, and when it
  does not they fail, for an authenticated caller with the store's no-row error,
  and write nothing. Accepted or not, share and revoke leave the asset table and so
  every counter as it is. None of these operations touches the version of another
  asset, and the primary key is kept. So under creation, rename, share and revoke
  the counter never decreases, never skips a value and is never set to a number other
  than the current one plus 1. Nothing is said here about finalize.
\<close>

theorem version_steps:
  assumes pk: "distinct (map a_id (assets s))"
  shows "(\<forall>r s'. createUploadUrl gw ctx filename mime sz aid nonce now s = (r, s') \<longrightarrow>
            (version_of s' aid = version_of s aid
               \<or> version_of s aid = None \<and> version_of s' aid = Some 1)
            \<and> (\<forall>t. r = Inr t \<longrightarrow>
                  k_version t = 1 \<and> version_of s aid = None \<and> version_of s' aid = Some 1)
            \<and> (\<forall>b. b \<noteq> aid \<longrightarrow> version_of s' b = version_of s b)
            \<and> distinct (map a_id (assets s')))
       \<and> (\<forall>n s'. renameAsset ctx aid filename v now s = (Inr n, s') \<longrightarrow>
            version_of s aid = Some v \<and> version_of s' aid = Some (v + 1) \<and> n_version n = v + 1
            \<and> (\<forall>b. b \<noteq> aid \<longrightarrow> version_of s' b = version_of s b)
            \<and> distinct (map a_id (assets s')))
       \<and> (\<forall>e s'. renameAsset ctx aid filename v now s = (Inl e, s') \<longrightarrow> s' = s)
       \<and> (\<forall>r s'. shareAsset ctx aid email cd v sid now s = (r, s') \<longrightarrow>
            (\<forall>b. version_of s' b = version_of s b) \<and> assets s' = assets s
            \<and> (\<not> isl r \<longrightarrow> version_of s aid = Some v)
            \<and> (version_of s aid \<noteq> Some v \<longrightarrow>
                  isl r \<and> s' = s
                  \<and> (\<forall>u. requireAuth ctx = Inr u \<longrightarrow> r = Inl (PostgrestError ''PGRST116''))))
       \<and> (\<forall>r s'. revokeShare ctx aid email v s = (r, s') \<longrightarrow>
            (\<forall>b. version_of s' b = version_of s b) \<and> assets s' = assets s
            \<and> (\<not> isl r \<longrightarrow> version_of s aid = Some v)
            \<and> (version_of s aid \<noteq> Some v \<longrightarrow>
                  isl r \<and> s' = s
                  \<and> (\<forall>u. requireAuth ctx = Inr u \<longrightarrow> r = Inl (PostgrestError ''PGRST116''))))"
proof (intro conjI allI impI)
  fix r s'
  assume run: "createUploadUrl gw ctx filename mime sz aid nonce now s = (r, s')"
  from createUploadUrl_assets [OF run]
  have shape: "assets s' = assets s
         \<or> (aid \<notin> set (map a_id (assets s))
            \<and> (\<exists>A. assets s' = assets s @ [A] \<and> a_id A = aid \<and> a_version A = 1))"
    by (auto simp: new_asset_def)
  show "version_of s' aid = version_of s aid
          \<or> version_of s aid = None \<and> version_of s' aid = Some 1"
    using shape
  proof
    assume "assets s' = assets s"
    then show ?thesis by (simp add: version_of_def)
  next
    assume "aid \<notin> set (map a_id (assets s))
            \<and> (\<exists>A. assets s' = assets s @ [A] \<and> a_id A = aid \<and> a_version A = 1)"
    then obtain A where fresh: "aid \<notin> set (map a_id (assets s))"
      and A: "assets s' = assets s @ [A]" "a_id A = aid" "a_version A = 1"
      by blast
    from fresh have "version_of s aid = None"
      by (simp add: version_of_def find_not_in)
    moreover from find_snoc_new [of a_id A "assets s"] fresh A
    have "version_of s' aid = Some 1" by (simp add: version_of_def)
    ultimately show ?thesis by simp
  qed
  show "distinct (map a_id (assets s'))"
    using shape pk by auto
  {
    fix b assume "b \<noteq> aid"
    with shape show "version_of s' b = version_of s b"
      by (auto simp: version_of_def find_snoc_other [where key = a_id])
  }
  {
    fix t assume "r = Inr t"
    with createUploadUrl_Inr run obtain uid where
      fresh: "aid \<notin> set (map a_id (assets s))" and kv: "k_version t = 1"
      and as: "assets s' = assets s @
                 [new_asset aid uid filename mime sz (storage_path_of uid aid filename) now]"
      by blast
    let ?A = "new_asset aid uid filename mime sz (storage_path_of uid aid filename) now"
    have idA: "a_id ?A = aid" and vA: "a_version ?A = 1" by (simp_all add: new_asset_def)
    show "k_version t = 1" by (rule kv)
    show "version_of s aid = None"
      using fresh by (simp add: version_of_def find_not_in)
    show "version_of s' aid = Some 1"
      using find_snoc_new [of a_id ?A "assets s"] fresh idA vA as
      by (simp add: version_of_def)
  }
next
  fix n s'
  assume run: "renameAsset ctx aid filename v now s = (Inr n, s')"
  let ?f = "\<lambda>a. a\<lparr>a_filename := filename, a_version := v + 1, a_updated_at := now\<rparr>"
  from renameAsset_Inr [OF run] obtain u a where
    one: "filter (\<lambda>a. a_id a = aid \<and> a_owner_id a = u \<and> a_version a = v) (assets s) = [a]"
    and n: "n = asset_node_of (?f a)"
    and s': "s' = s\<lparr>assets := update_rows (\<lambda>a. a_id a = aid \<and> a_owner_id a = u \<and> a_version a = v)
                       ?f (assets s)\<rparr>"
    by blast
  let ?P = "\<lambda>a. a_id a = aid \<and> a_owner_id a = u \<and> a_version a = v"
  have idf: "a_id (?f x) = a_id x" for x by simp
  have vf: "a_version (?f a) = v + 1" by simp
  note step = version_of_update_rows [OF pk one _ idf, of aid, folded s']
  from one have "a \<in> set (filter ?P (assets s))" by simp
  then show "version_of s aid = Some v"
    by (rule guard_version [OF pk])
  show "version_of s' aid = Some (v + 1)"
    using step [of aid] vf by simp
  show "n_version n = v + 1"
    using n by (simp add: asset_node_of_def)
  show "distinct (map a_id (assets s'))"
    using pk map_key_update_rows [of a_id ?f ?P "assets s"] idf by (simp add: s')
  fix b assume "b \<noteq> aid"
  then show "version_of s' b = version_of s b"
    using step [of b] by simp
next
  fix e s'
  assume "renameAsset ctx aid filename v now s = (Inl e, s')"
  then show "s' = s" by (rule renameAsset_Inl)
next
  fix r s'
  assume run: "shareAsset ctx aid email cd v sid now s = (r, s')"
  with shareAsset_assets [of ctx aid email cd v sid now s]
  show same: "assets s' = assets s" by simp
  then show "\<And>b. version_of s' b = version_of s b" by (simp add: version_of_def)
  {
    assume "\<not> isl r"
    then obtain x where "r = Inr x" by (cases r) auto
    with shareAsset_Inr run obtain u a where
      "filter (\<lambda>a. a_id a = aid \<and> a_owner_id a = u \<and> a_version a = v) (assets s) = [a]"
      by blast
    then have "a \<in> set (filter (\<lambda>a. a_id a = aid \<and> a_owner_id a = u \<and> a_version a = v) (assets s))"
      by simp
    then show "version_of s aid = Some v" by (rule guard_version [OF pk])
  }
  {
    assume stale: "version_of s aid \<noteq> Some v"
    have res: "r = Inl (PostgrestError ''PGRST116'') \<and> s' = s" if "requireAuth ctx = Inr u" for u
      using shareAsset_no_row [OF guard_stale [OF pk stale] that] run by simp
    then show "\<And>u. requireAuth ctx = Inr u \<Longrightarrow> r = Inl (PostgrestError ''PGRST116'')" by simp
    show "isl r" "s' = s"
      using res unauthenticated_share(1) [of ctx _ aid email cd v sid now s] run
      by (cases "requireAuth ctx"; force)+
  }
next
  fix r s'
  assume run: "revokeShare ctx aid email v s = (r, s')"
  with revokeShare_assets [of ctx aid email v s]
  show same: "assets s' = assets s" by simp
  then show "\<And>b. version_of s' b = version_of s b" by (simp add: version_of_def)
  {
    assume "\<not> isl r"
    then obtain x where "r = Inr x" by (cases r) auto
    with revokeShare_Inr run obtain u a where
      "filter (\<lambda>a. a_id a = aid \<and> a_owner_id a = u \<and> a_version a = v) (assets s) = [a]"
      by blast
    then have "a \<in> set (filter (\<lambda>a. a_id a = aid \<and> a_owner_id a = u \<and> a_version a = v) (assets s))"
      by simp
    then show "version_of s aid = Some v" by (rule guard_version [OF pk])
  }
  {
    assume stale: "version_of s aid \<noteq> Some v"
    have res: "r = Inl (PostgrestError ''PGRST116'') \<and> s' = s" if "requireAuth ctx = Inr u" for u
      using revokeShare_no_row [OF guard_stale [OF pk stale] that] run by simp
    then show "\<And>u. requireAuth ctx = Inr u \<Longrightarrow> r = Inl (PostgrestError ''PGRST116'')" by simp
    show "isl r" "s' = s"
      using res unauthenticated_share(2) [of ctx _ aid email v s] run
      by (cases "requireAuth ctx"; force)+
  }
qed

text \<open>
  Creation with and without its ticket, an accepted and a rejected rename, and a
  share and a revoke at the stored and at a stale version, all on the draft state.
\<close>

theorem version_steps_witness:
  "distinct (map a_id (assets db_empty)) \<and> distinct (map a_id (assets db_draft))
   \<and> version_of db_empty ''a1'' = None
   \<and> version_of db_draft ''a1'' = Some 1
   \<and> version_of (snd (createUploadUrl gw0 alice ''scan.png'' ''image/png'' 10 ''a2'' ''n1'' 5000
                        db_draft)) ''a2'' = Some 1
   \<and> version_of (snd (renameAsset alice ''a1'' ''new.jpg'' 1 2000 db_draft)) ''a1'' = Some (1 + 1)
   \<and> snd (renameAsset alice ''a1'' ''new.jpg'' 7 2000 db_draft) = db_draft
   \<and> version_of (snd (shareAsset alice ''a1'' ''bob@example.com'' True 1 ''s1'' 3000 db_draft)) ''a1''
       = Some 1
   \<and> shareAsset alice ''a1'' ''bob@example.com'' True 5 ''s1'' 3000 db_draft
       = (Inl (PostgrestError ''PGRST116''), db_draft)
   \<and> version_of (snd (revokeShare alice ''a1'' ''bob@example.com'' 1 db_draft)) ''a1'' = Some 1
   \<and> revokeShare alice ''a1'' ''bob@example.com'' 5 db_draft
       = (Inl (PostgrestError ''PGRST116''), db_draft)"
proof -
  have auth: "requireAuth alice = Inr ''u-alice''"
    by (simp add: requireAuth_def alice_def)
  have pk0: "distinct (map a_id (assets db_empty))"
    by (simp add: db_empty_def)
  have pk1: "distinct (map a_id (assets db_draft))"
    by (simp add: db_draft_def db_empty_def)
  note issue = version_steps [OF pk0, where gw = gw0 and ctx = alice and filename = "''photo.jpg''"
      and mime = "''image/jpeg''" and sz = 1024 and aid = "''a1''" and nonce = "''n1''" and now = 1000,
      THEN conjunct1, rule_format, OF db_draft_issued]
  from issue have created: "version_of db_empty ''a1'' = None" "version_of db_draft ''a1'' = Some 1"
    by blast+
  let ?partial = "createUploadUrl gw0 alice ''scan.png'' ''image/png'' 10 ''a2'' ''n1'' 5000 db_draft"
  have left: "version_of (snd ?partial) ''a2'' \<noteq> version_of db_draft ''a2''"
    by (simp add: version_of_def issue_defs store_defs example_defs)
  note issue2 = version_steps [OF pk1, where gw = gw0 and ctx = alice and filename = "''scan.png''"
      and mime = "''image/png''" and sz = 10 and aid = "''a2''" and nonce = "''n1''" and now = 5000,
      THEN conjunct1, rule_format, OF surjective_pairing]
  from issue2 left have orphan: "version_of (snd ?partial) ''a2'' = Some 1"
    by blast
  note rename1 = version_steps [OF pk1, where ctx = alice and aid = "''a1''" and now = 2000
      and filename = "''new.jpg''" and v = 1, THEN conjunct2]
  note rename7 = version_steps [OF pk1, where ctx = alice and aid = "''a1''" and now = 2000
      and filename = "''new.jpg''" and v = 7, THEN conjunct2]
  from rename1 [THEN conjunct1, rule_format, OF db_draft_renamed]
  have "version_of (db_draft\<lparr>assets := [photo\<lparr>a_filename := ''new.jpg'', a_version := 2,
                                                 a_updated_at := 2000\<rparr>]\<rparr>) ''a1'' = Some (1 + 1)"
    by blast
  then have renamed:
    "version_of (snd (renameAsset alice ''a1'' ''new.jpg'' 1 2000 db_draft)) ''a1'' = Some (1 + 1)"
    by (simp add: db_draft_renamed)
  have "isl (fst (renameAsset alice ''a1'' ''new.jpg'' 7 2000 db_draft))"
    by (simp add: renameAsset_def store_defs example_defs)
  then obtain e where
    "renameAsset alice ''a1'' ''new.jpg'' 7 2000 db_draft
       = (Inl e, snd (renameAsset alice ''a1'' ''new.jpg'' 7 2000 db_draft))"
    by (metis isl_def prod.collapse)
  from rename7 [THEN conjunct2, THEN conjunct1, rule_format, OF this]
  have rejected: "snd (renameAsset alice ''a1'' ''new.jpg'' 7 2000 db_draft) = db_draft" .
  have stale: "version_of db_draft ''a1'' \<noteq> Some 5"
    using created by simp
  note at1 = version_steps [OF pk1, where ctx = alice and aid = "''a1''" and now = 3000
      and email = "''bob@example.com''" and cd = True and sid = "''s1''" and v = 1,
      THEN conjunct2, THEN conjunct2, THEN conjunct2]
  note at5 = version_steps [OF pk1, where ctx = alice and aid = "''a1''" and now = 3000
      and email = "''bob@example.com''" and cd = True and sid = "''s1''" and v = 5,
      THEN conjunct2, THEN conjunct2, THEN conjunct2]
  note share1 = at1 [THEN conjunct1, rule_format, OF surjective_pairing]
  note share5 = at5 [THEN conjunct1, rule_format, OF surjective_pairing]
  note revoke1 = at1 [THEN conjunct2, rule_format, OF surjective_pairing]
  note revoke5 = at5 [THEN conjunct2, rule_format, OF surjective_pairing]
  from share1 created have shared:
    "version_of (snd (shareAsset alice ''a1'' ''bob@example.com'' True 1 ''s1'' 3000 db_draft)) ''a1''
       = Some 1"
    by simp
  from revoke1 created have revoked:
    "version_of (snd (revokeShare alice ''a1'' ''bob@example.com'' 1 db_draft)) ''a1'' = Some 1"
    by simp
  from share5 stale auth have
    "fst (shareAsset alice ''a1'' ''bob@example.com'' True 5 ''s1'' 3000 db_draft)
       = Inl (PostgrestError ''PGRST116'')"
    "snd (shareAsset alice ''a1'' ''bob@example.com'' True 5 ''s1'' 3000 db_draft) = db_draft"
    by blast+
  then have share_stale:
    "shareAsset alice ''a1'' ''bob@example.com'' True 5 ''s1'' 3000 db_draft
       = (Inl (PostgrestError ''PGRST116''), db_draft)"
    by (simp add: prod_eq_iff)
  from revoke5 stale auth have
    "fst (revokeShare alice ''a1'' ''bob@example.com'' 5 db_draft)
       = Inl (PostgrestError ''PGRST116'')"
    "snd (revokeShare alice ''a1'' ''bob@example.com'' 5 db_draft) = db_draft"
    by blast+
  then have revoke_stale:
    "revokeShare alice ''a1'' ''bob@example.com'' 5 db_draft
       = (Inl (PostgrestError ''PGRST116''), db_draft)"
    by (simp add: prod_eq_iff)
  from pk0 pk1 created orphan renamed rejected shared revoked share_stale revoke_stale
  show ?thesis by simp
qed

section \<open>Single use of access tokens\<close>

text \<open>The sweep only removes entries: a token that is gone stays gone.\<close>

lemma sweep_absent:
  "urlAccessCache s tok = None \<Longrightarrow> urlAccessCache (sweep now s) tok = None"
  by (simp add: sweep_def)

lemma sweep_keeps_live:
  "urlAccessCache s tok = Some c \<Longrightarrow> \<not> c_expiresAt c < now \<Longrightarrow>
     urlAccessCache (sweep now s) tok = Some c"
  by (simp add: sweep_def)

text \<open>
  Claim C7. For an authenticated caller, \<^verbatim>\<open>validateDownloadToken\<close> fails with
  \<^verbatim>\<open>FORBIDDEN\<close> when the token is not in the cache, when the cache binds it to
  another caller, and when its expiry lies before the current time. Otherwise it
  succeeds, returns the asset id of the entry and deletes the entry. After a
  successful validation the token is gone, so every later validation of the same
  token, by whichever caller and at whichever time, fails with \<^verbatim>\<open>FORBIDDEN\<close>:
  a token validates at most once.
\<close>

theorem validateDownloadToken_single_use:
  assumes auth: "requireAuth ctx = Inr u"
  shows "(urlAccessCache s tok = None \<longrightarrow>
            extension_code (fst (validateDownloadToken ctx tok now s)) = Some FORBIDDEN)
       \<and> (\<forall>c. urlAccessCache s tok = Some c \<and> c_userId c \<noteq> u \<longrightarrow>
            extension_code (fst (validateDownloadToken ctx tok now s)) = Some FORBIDDEN)
       \<and> (\<forall>c. urlAccessCache s tok = Some c \<and> c_expiresAt c < now \<longrightarrow>
            extension_code (fst (validateDownloadToken ctx tok now s)) = Some FORBIDDEN)
       \<and> (\<forall>c. urlAccessCache s tok = Some c \<and> c_userId c = u \<and> \<not> c_expiresAt c < now \<longrightarrow>
            validateDownloadToken ctx tok now s
              = (Inr \<lparr>v_valid = True, v_assetId = c_assetId c\<rparr>,
                 s\<lparr>urlAccessCache := (urlAccessCache s)(tok := None)\<rparr>))
       \<and> (\<forall>r s'. validateDownloadToken ctx tok now s = (Inr r, s') \<longrightarrow>
            urlAccessCache s' tok = None
            \<and> (\<forall>ctx' u' now'. requireAuth ctx' = Inr u' \<longrightarrow>
                  extension_code (fst (validateDownloadToken ctx' tok now' s')) = Some FORBIDDEN))"
  using auth
  by (auto simp: validateDownloadToken_def split: option.splits if_splits sum.splits)

text \<open>
  Bob's token \<^verbatim>\<open>tok-1\<close> validates once at time 4000 and is refused at 4001; it is
  also refused past its expiry, and an unknown token is refused.
\<close>

theorem validateDownloadToken_single_use_witness:
  "requireAuth bob = Inr ''u-bob''
   \<and> urlAccessCache db_token ''tok-1'' = Some \<lparr>c_userId = ''u-bob'', c_assetId = ''a1'', c_expiresAt = 93000\<rparr>
   \<and> urlAccessCache db_token ''tok-2'' = None
   \<and> extension_code (fst (validateDownloadToken bob ''tok-2'' 4000 db_token)) = Some FORBIDDEN
   \<and> extension_code (fst (validateDownloadToken bob ''tok-1'' 93001 db_token)) = Some FORBIDDEN
   \<and> fst (validateDownloadToken bob ''tok-1'' 4000 db_token) = Inr \<lparr>v_valid = True, v_assetId = ''a1''\<rparr>
   \<and> extension_code (fst (validateDownloadToken bob ''tok-1'' 4001
         (snd (validateDownloadToken bob ''tok-1'' 4000 db_token)))) = Some FORBIDDEN"
proof -
  have auth: "requireAuth bob = Inr ''u-bob''"
    by (simp add: requireAuth_def bob_def)
  have c1: "urlAccessCache db_token ''tok-1''
              = Some \<lparr>c_userId = ''u-bob'', c_assetId = ''a1'', c_expiresAt = 93000\<rparr>"
    by (simp add: db_token_def)
  have c2: "urlAccessCache db_token ''tok-2'' = None"
    by (simp add: db_token_def db_draft_def db_empty_def)
  note T = validateDownloadToken_single_use [OF auth, where s = db_token]
  from T [where tok = "''tok-2''" and now = 4000] c2
  have absent: "extension_code (fst (validateDownloadToken bob ''tok-2'' 4000 db_token)) = Some FORBIDDEN"
    by blast
  from T [where tok = "''tok-1''" and now = 93001] c1
  have expired: "extension_code (fst (validateDownloadToken bob ''tok-1'' 93001 db_token)) = Some FORBIDDEN"
    by simp
  from T [where tok = "''tok-1''" and now = 4000] c1
  have ok: "validateDownloadToken bob ''tok-1'' 4000 db_token
              = (Inr \<lparr>v_valid = True, v_assetId = ''a1''\<rparr>,
                 db_token\<lparr>urlAccessCache := (urlAccessCache db_token)(''tok-1'' := None)\<rparr>)"
    by simp
  with T [where tok = "''tok-1''" and now = 4000] auth
  have again: "extension_code (fst (validateDownloadToken bob ''tok-1'' 4001
         (snd (validateDownloadToken bob ''tok-1'' 4000 db_token)))) = Some FORBIDDEN"
    by simp
  from auth c1 c2 absent expired ok again show ?thesis by simp
qed

section \<open>Download links\<close>

text \<open>
  Who gets a link: reading an asset id that has no row ends in the store's error;
  a caller who neither owns the asset nor holds a grant with \<^verbatim>\<open>can_download\<close> is
  refused with \<^verbatim>\<open>FORBIDDEN\<close>; the owner and the holder of such a grant receive the
  signed URL with the token appended, and the token is bound to them in the cache.
\<close>

lemma getDownloadUrl_no_row:
  assumes "requireAuth ctx = Inr uid"
    and "filter (\<lambda>a. a_id a = assetId) (assets s) = []"
  shows "getDownloadUrl gw ctx assetId accessToken auditId now s
           = (Inl (PostgrestError ''PGRST116''), s)"
  using assms by (simp add: getDownloadUrl_def single_def)

lemma getDownloadUrl_forbidden:
  assumes "requireAuth ctx = Inr uid"
    and "filter (\<lambda>a. a_id a = assetId) (assets s) = [a]"
    and "a_owner_id a \<noteq> uid"
    and "filter (\<lambda>x. s_asset_id x = assetId \<and> s_to_user x = uid \<and> s_can_download x = True)
           (asset_shares s) = []"
  shows "getDownloadUrl gw ctx assetId accessToken auditId now s
           = (Inl (GraphQLError ''Access denied'' FORBIDDEN), s)"
  using assms by (simp add: getDownloadUrl_def single_def maybeSingle_def)

lemma getDownloadUrl_granted:
  assumes "requireAuth ctx = Inr uid"
    and "filter (\<lambda>a. a_id a = assetId) (assets s) = [a]"
    and "a_owner_id a = uid
         \<or> filter (\<lambda>x. s_asset_id x = assetId \<and> s_to_user x = uid \<and> s_can_download x = True)
              (asset_shares s) = [g]"
    and "createSignedUrl gw (a_storage_path a) 90 = (Some signedUrl, None)"
  shows "fst (getDownloadUrl gw ctx assetId accessToken auditId now s)
           = Inr \<lparr>l_url = signedUrl @ ''&access_token='' @ accessToken, l_expiresAt = now + 90000\<rparr>
       \<and> urlAccessCache (snd (getDownloadUrl gw ctx assetId accessToken auditId now s)) accessToken
           = Some \<lparr>c_userId = uid, c_assetId = assetId, c_expiresAt = now + 90000\<rparr>"
  using assms by (auto simp: getDownloadUrl_def single_def maybeSingle_def)

text \<open>
  The scenario of the specification: Bob is refused a link to Alice's asset, Alice
  shares it with him, and the same request succeeds.
\<close>

lemma share_then_download:
  "getDownloadUrl gw0 bob ''a1'' ''tok-1'' ''aud-1'' 3000 db_draft
     = (Inl (GraphQLError ''Access denied'' FORBIDDEN), db_draft)
   \<and> \<not> isl (fst (shareAsset alice ''a1'' ''bob@example.com'' True 1 ''s1'' 2500 db_draft))
   \<and> fst (getDownloadUrl gw0 bob ''a1'' ''tok-1'' ''aud-1'' 3000
            (snd (shareAsset alice ''a1'' ''bob@example.com'' True 1 ''s1'' 2500 db_draft)))
       = Inr \<lparr>l_url = ''https://blob/get/u-alice/a1/photo.jpg?sig=1&access_token=tok-1'',
              l_expiresAt = 93000\<rparr>"
  by (simp add: getDownloadUrl_def shareAsset_def store_defs example_defs)

text \<open>
  Claim C8 fails on the code for an unknown asset. The asset is read with
  \<^verbatim>\<open>.single()\<close>, which reports \<^verbatim>\<open>PGRST116\<close> when no row matches; the resolver
  rethrows that error before it reaches its own \<^verbatim>\<open>NOT_FOUND\<close> branch, so the
  caller sees an error of the store without an extension code.
\<close>

theorem getDownloadUrl_unknown_asset:
  "''nope'' \<notin> set (map a_id (assets db_draft))
   \<and> getDownloadUrl gw0 bob ''nope'' ''tok-9'' ''aud-9'' 3000 db_draft
     = (Inl (PostgrestError ''PGRST116''), db_draft)
   \<and> extension_code (fst (getDownloadUrl gw0 bob ''nope'' ''tok-9'' ''aud-9'' 3000 db_draft)) = None"
  by (simp add: getDownloadUrl_def store_defs example_defs)

section \<open>Paging through the listing\<close>

text \<open>
  A page of \<^verbatim>\<open>myAssets\<close> for a page size that is not negative: the rows come in
  descending order of creation time, at most \<open>limit\<close> of them, \<open>limit + 1\<close> rows are
  fetched and the extra row decides \<^verbatim>\<open>hasNextPage\<close>. Every row returned for a cursor
  was created after the cursor.
\<close>

lemma sorted_desc_query:
  "sorted (map (\<lambda>a. - a_created_at a) (myAssets_query ilike uid q after s))"
  unfolding myAssets_query_def order_created_at_desc_def
  by (intro sorted_filter) (rule sorted_sort_key)

lemma myAssets_page:
  assumes auth: "requireAuth ctx = Inr uid"
    and lim: "limit = (case first of None \<Rightarrow> 50 | Some n \<Rightarrow> if n = 0 then 50 else n)"
    and pos: "0 \<le> limit"
  shows "\<exists>c. myAssets ilike ctx after first q s = Inr c
           \<and> sorted (map (\<lambda>e. - e_cursor e) (edges c))
           \<and> length (edges c) \<le> nat limit
           \<and> map e_node (edges c)
               = map asset_node_of (take (nat limit) (myAssets_query ilike uid q after s))
           \<and> p_hasNextPage (pageInfo c)
               = (nat limit < length (myAssets_query ilike uid q after s))
           \<and> (\<forall>cur. after = Some cur \<longrightarrow> (\<forall>e \<in> set (edges c). cur < e_cursor e))"
proof -
  let ?Q = "myAssets_query ilike uid q after s"
  let ?rows = "take (nat (limit + 1)) ?Q"
  let ?more = "int (length ?rows) > limit"
  let ?nodes = "if ?more then slice0 limit ?rows else ?rows"
  have fetch: "limit_rows (limit + 1) ?Q = (Some ?rows, None)"
    using pos by (simp add: limit_rows_def)
  have more: "?more = (nat limit < length ?Q)"
    using pos by (auto simp: nat_add_distrib)
  have nodes: "(if nat limit < length ?Q then slice0 limit ?rows else ?rows) = take (nat limit) ?Q"
    using pos by (auto simp: slice0_def nat_add_distrib min_def)
  have srt: "sorted (map (\<lambda>a. - a_created_at a) (take (nat limit) ?Q))"
    using sorted_desc_query [of ilike uid q after s]
    by (simp add: take_map [symmetric])
  have newer: "cur < a_created_at a" if "after = Some cur" "a \<in> set (take (nat limit) ?Q)" for cur a
  proof -
    from that(2) have "a \<in> set ?Q" by (rule in_set_takeD)
    with that(1) show ?thesis by (simp add: myAssets_query_def)
  qed
  have "myAssets ilike ctx after first q s
          = Inr \<lparr>edges = map (\<lambda>a. \<lparr>e_cursor = a_created_at a, e_node = asset_node_of a\<rparr>) ?nodes,
                 pageInfo = \<lparr>p_endCursor = (if length ?nodes > 0
                                              then Some (a_created_at (last ?nodes)) else None),
                             p_hasNextPage = ?more\<rparr>\<rparr>"
    using auth fetch by (simp add: myAssets_def Let_def flip: lim)
  then have "myAssets ilike ctx after first q s
          = Inr \<lparr>edges = map (\<lambda>a. \<lparr>e_cursor = a_created_at a, e_node = asset_node_of a\<rparr>)
                          (take (nat limit) ?Q),
                 pageInfo = \<lparr>p_endCursor = (if length (take (nat limit) ?Q) > 0
                                              then Some (a_created_at (last (take (nat limit) ?Q)))
                                              else None),
                             p_hasNextPage = (nat limit < length ?Q)\<rparr>\<rparr>"
    unfolding more nodes .
  then show ?thesis
    using srt newer by (simp add: comp_def)
qed

text \<open>
  A negative page size: for \<open>first = -1\<close> no row is fetched and the empty page
  announces a next page; below that the store refuses the limit.
\<close>

lemma myAssets_negative_first:
  assumes "requireAuth ctx = Inr uid"
  shows "myAssets ilike ctx after (Some (- 1)) q s
           = Inr \<lparr>edges = [], pageInfo = \<lparr>p_endCursor = None, p_hasNextPage = True\<rparr>\<rparr>"
    and "n < - 1 \<Longrightarrow> myAssets ilike ctx after (Some n) q s = Inl (PostgrestError ''PGRST103'')"
  using assms by (simp_all add: myAssets_def limit_rows_def slice0_def Let_def)

text \<open>
  Claim C9 fails on the code. Alice has assets created at 1000, 2000 and 3000. The
  first page of two holds 3000 and 2000, ends at cursor 2000 and announces a next
  page. The request with that cursor filters \<^verbatim>\<open>created_at > 2000\<close>: it returns the
  row 3000 of the first page again, and the row 1000 is never listed.
\<close>

theorem myAssets_cursor_returns_newer_rows:
  "map a_created_at (assets db_three) = [1000, 2000, 3000]
   \<and> map_sum id (\<lambda>c. (map e_cursor (edges c), pageInfo c))
        (myAssets ilike alice None (Some 2) None db_three)
     = Inr ([3000, 2000], \<lparr>p_endCursor = Some 2000, p_hasNextPage = True\<rparr>)
   \<and> map_sum id (\<lambda>c. (map e_cursor (edges c), pageInfo c))
        (myAssets ilike alice (Some 2000) (Some 2) None db_three)
     = Inr ([3000], \<lparr>p_endCursor = Some 3000, p_hasNextPage = False\<rparr>)"
  by (simp add: myAssets_def myAssets_query_def order_created_at_desc_def limit_rows_def slice0_def
      store_defs example_defs)

end
